theory Spec2Isabelle
  imports Complex_Main
begin

section \<open>Python errors and results\<close>

text \<open>
  Every exception the modelled Python can raise is a value. A computation that may raise
  returns \<open>error + 'a\<close>, with \<open>Inl\<close> the exception.
\<close>

datatype error =
    AssertionError
  | AttributeError
  | IndexError
  | NotImplementedError
  | RuntimeError
  | TypeError
  | ValueError

definition bindR :: "error + 'a \<Rightarrow> ('a \<Rightarrow> error + 'b) \<Rightarrow> error + 'b" where
  "bindR m f = (case m of Inl e \<Rightarrow> Inl e | Inr x \<Rightarrow> f x)"

section \<open>Tensors\<close>

text \<open>
  A torch tensor is its size and its elements in row-major order. The size is kept
  explicitly, so that a dimension of size zero keeps the dimensions after it.
\<close>

record 'a tensor =
  shape :: "nat list"
  elems :: "'a list"

definition well_shaped :: "'a tensor \<Rightarrow> bool" where
  "well_shaped t = (length (elems t) = prod_list (shape t))"

text \<open>\<open>select0 t i\<close> is the sub-tensor \<open>t[i]\<close> for \<open>i\<close> within the first dimension.\<close>

definition select0 :: "'a tensor \<Rightarrow> nat \<Rightarrow> 'a tensor" where
  "select0 t i =
     (let s = tl (shape t); n = prod_list s
      in \<lparr>shape = s, elems = take n (drop (i * n) (elems t))\<rparr>)"

text \<open>\<open>t[i]\<close> for a non-negative index: IndexError on a 0-d tensor or out of range.\<close>

definition index0 :: "'a tensor \<Rightarrow> nat \<Rightarrow> error + 'a tensor" where
  "index0 t i =
     (case shape t of
        [] \<Rightarrow> Inl IndexError
      | d # s \<Rightarrow> if i < d then Inr (select0 t i) else Inl IndexError)"

text \<open>\<open>for step in t\<close>: the sub-tensors along the first dimension; a 0-d tensor
  cannot be iterated.\<close>

definition unbind0 :: "'a tensor \<Rightarrow> error + 'a tensor list" where
  "unbind0 t =
     (case shape t of
        [] \<Rightarrow> Inl TypeError
      | d # s \<Rightarrow> Inr (map (select0 t) [0..<d]))"

text \<open>\<open>t.unsqueeze_(0)\<close>\<close>

definition unsqueeze0 :: "'a tensor \<Rightarrow> 'a tensor" where
  "unsqueeze0 t = t\<lparr>shape := 1 # shape t\<rparr>"

text \<open>\<open>torch.cat(ts, dim=0)\<close>: the list must not be empty, no tensor may be 0-d, and all
  must agree on the dimensions after the first.\<close>

definition cat0 :: "'a tensor list \<Rightarrow> error + 'a tensor" where
  "cat0 ts =
     (case ts of
        [] \<Rightarrow> Inl RuntimeError
      | t # us \<Rightarrow>
          (case shape t of
             [] \<Rightarrow> Inl RuntimeError
           | d # s \<Rightarrow>
               if list_all (\<lambda>u. shape u \<noteq> [] \<and> tl (shape u) = s) us
               then Inr \<lparr>shape = sum_list (map (\<lambda>u. hd (shape u)) ts) # s,
                         elems = concat (map elems ts)\<rparr>
               else Inl RuntimeError))"

text \<open>\<open>torch.cat([a, b], dim=-1)\<close>: both at least 1-d, agreeing on every dimension but
  the last.\<close>

definition cat_last :: "'a tensor \<Rightarrow> 'a tensor \<Rightarrow> error + 'a tensor" where
  "cat_last a b =
     (if shape a = [] \<or> shape b = [] \<or> butlast (shape a) \<noteq> butlast (shape b)
      then Inl RuntimeError
      else
        (let la = last (shape a); lb = last (shape b); n = prod_list (butlast (shape a))
         in Inr \<lparr>shape = butlast (shape a) @ [la + lb],
                  elems = concat (map (\<lambda>i. take la (drop (i * la) (elems a)) @
                                             take lb (drop (i * lb) (elems b))) [0..<n])\<rparr>))"

text \<open>\<open>t[:n]\<close> for \<open>n \<ge> 0\<close>: the first \<open>n\<close> sub-tensors (fewer when there are not as many).\<close>

definition slice0 :: "'a tensor \<Rightarrow> nat \<Rightarrow> error + 'a tensor" where
  "slice0 t n =
     (case shape t of
        [] \<Rightarrow> Inl IndexError
      | d # s \<Rightarrow> Inr \<lparr>shape = min n d # s, elems = take (min n d * prod_list s) (elems t)\<rparr>)"

text \<open>\<open>t.repeat(1, k, 1)\<close> for \<open>k \<ge> 0\<close>: a tensor of fewer than three dimensions gets
  leading dimensions of size 1, one of more than three is refused; each block along the
  first dimension is then laid out \<open>k\<close> times along the second.\<close>

definition repeat_1k1 :: "'a tensor \<Rightarrow> nat \<Rightarrow> error + 'a tensor" where
  "repeat_1k1 t k =
     (if 3 < length (shape t) then Inl RuntimeError
      else
        (let s3 = replicate (3 - length (shape t)) 1 @ shape t;
             a = s3 ! 0; b = s3 ! 1; c = s3 ! 2
         in Inr \<lparr>shape = [a, b * k, c],
                  elems = concat (map (\<lambda>i. concat (replicate k
                                     (take (b * c) (drop (i * (b * c)) (elems t))))) [0..<a])\<rparr>))"

text \<open>\<open>assert_dims(t, dims)\<close> of \<open>quicknlp.utils\<close> on a single tensor, where \<open>None\<close>
  stands for any size.
  Modelled from the spec: \<open>assert_dims\<close> is not among the sources; by the spec's
  ShapeMismatch, a tensor of unexpected rank or dimension fails at once and is never
  reshaped or truncated, otherwise the tensor is returned as it is.\<close>

definition assert_dims :: "'a tensor \<Rightarrow> nat option list \<Rightarrow> error + 'a tensor" where
  "assert_dims t dims =
     (if list_all2 (\<lambda>d e. case e of None \<Rightarrow> True | Some n \<Rightarrow> d = n) (shape t) dims
      then Inr t else Inl AssertionError)"

text \<open>\<open>xs[-1]\<close> on a Python list.\<close>

definition py_last :: "'x list \<Rightarrow> error + 'x" where
  "py_last xs = (if xs = [] then Inl IndexError else Inr (last xs))"

section \<open>The attention decoder\<close>

text \<open>
  The projection layer is a collaborator with state of its own: the attention keys, which
  the decoder reads and writes directly, and whatever else it holds.
\<close>

record ('a, 'p) projection =
  keys :: "'a tensor option"
  pstate :: 'p

text \<open>
  The decoder object. The embedding layer, the recurrent layers with their dropouts and
  the methods of the projection layer are collaborators that are not among the sources:
  they are fields holding functions, each of which may raise. \<open>hidden\<close> is
  \<open>self.decoder_layer.hidden\<close>, one entry per layer.
\<close>

record ('a, 'h, 'p) decoder =
  embedding_layer :: "int tensor \<Rightarrow> error + 'a tensor"
  layers :: "('a tensor \<Rightarrow> 'h \<Rightarrow> error + 'a tensor \<times> 'h) list"
  dropouths :: "('a tensor \<Rightarrow> error + 'a tensor) list"
  hidden :: "'h list"
  nlayers :: int
  emb_size :: nat
  projection_layer :: "('a, 'p) projection"
  projection_call ::
    "('a, 'p) projection \<Rightarrow> 'a tensor \<Rightarrow> error + 'a tensor \<times> ('a, 'p) projection"
  get_attention_output :: "('a, 'p) projection \<Rightarrow> 'a tensor \<Rightarrow> error + 'a tensor"
  decoder_pr_force :: real
  beam_outputs :: "int tensor option"

text \<open>
  The loop of \<open>AttentionDecoder._rnn_step\<close> over
  \<open>enumerate(zip(layers, dropouths))\<close>. \<open>hidden\<close> is the argument of the call
  (\<open>None\<close> cannot be subscripted), \<open>nl\<close> is \<open>self.nlayers\<close>.
\<close>

fun rnn_step_loop ::
  "int \<Rightarrow> 'h list option \<Rightarrow> nat \<Rightarrow>
   (('a tensor \<Rightarrow> 'h \<Rightarrow> error + 'a tensor \<times> 'h) \<times> ('a tensor \<Rightarrow> error + 'a tensor)) list \<Rightarrow>
   'a tensor \<Rightarrow> 'h list \<Rightarrow> 'a tensor list \<Rightarrow> error + 'h list \<times> 'a tensor list" where
  "rnn_step_loop nl hid layer_index [] output new_hidden outputs = Inr (new_hidden, outputs)"
| "rnn_step_loop nl hid layer_index ((rnn, dropout) # rest) output new_hidden outputs =
     (case hid of
        None \<Rightarrow> Inl TypeError
      | Some hs \<Rightarrow>
          if length hs \<le> layer_index then Inl IndexError
          else
            bindR (rnn output (hs ! layer_index)) (\<lambda>(out, new_h).
            bindR (if int layer_index \<noteq> nl - 1 then dropout out else Inr out) (\<lambda>out'.
            rnn_step_loop nl hid (Suc layer_index) rest out'
              (new_hidden @ [new_h]) (outputs @ [out']))))"

text \<open>\<open>AttentionDecoder._rnn_step\<close>: the outputs of all layers, and the decoder with
  \<open>self.decoder_layer.hidden\<close> replaced by the new states.\<close>

definition AttentionDecoder_rnn_step ::
  "('a, 'h, 'p) decoder \<Rightarrow> 'a tensor \<Rightarrow> 'h list option \<Rightarrow>
   error + 'a tensor list \<times> ('a, 'h, 'p) decoder" where
  "AttentionDecoder_rnn_step D output hid =
     bindR (rnn_step_loop (nlayers D) hid 0 (zip (layers D) (dropouths D)) output [] [])
       (\<lambda>(new_hidden, outputs). Inr (outputs, D\<lparr>hidden := new_hidden\<rparr>))"

text \<open>The input of the recurrent layers at one step, line 16 and 17 of
  \<open>_train_forward\<close>: the embedded step and the attention output of the projection
  layer, side by side, with a leading dimension of 1.\<close>

definition train_step_input ::
  "('a, 'h, 'p) decoder \<Rightarrow> nat \<Rightarrow> 'a tensor \<Rightarrow> error + 'a tensor" where
  "train_step_input D bs step =
     bindR (get_attention_output D (projection_layer D) step) (\<lambda>att.
     bindR (cat_last step att) (\<lambda>c.
     assert_dims (unsqueeze0 c) [Some 1, Some bs, Some (emb_size D * 2)]))"

text \<open>The body of \<open>for step in emb\<close> in \<open>AttentionDecoder._train_forward\<close>, run over
  the remaining steps. \<open>hid\<close> is the \<open>hidden\<close> argument of \<open>_train_forward\<close>.\<close>

fun train_loop ::
  "nat \<Rightarrow> 'h list option \<Rightarrow> ('a, 'h, 'p) decoder \<Rightarrow> 'a tensor list \<Rightarrow> 'a tensor list \<Rightarrow>
   error + 'a tensor list \<times> ('a, 'h, 'p) decoder" where
  "train_loop bs hid D [] final_outputs = Inr (final_outputs, D)"
| "train_loop bs hid D (step # rest) final_outputs =
     bindR (train_step_input D bs step) (\<lambda>step'.
     bindR (AttentionDecoder_rnn_step D step' hid) (\<lambda>(outputs, D1).
     bindR (py_last outputs) (\<lambda>out.
     bindR (assert_dims out [Some 1, Some bs, Some (emb_size D1)]) (\<lambda>rnn_out.
     bindR (index0 rnn_out 0) (\<lambda>r0.
     bindR (projection_call D1 (projection_layer D1) r0) (\<lambda>(logits, P).
     train_loop bs hid (D1\<lparr>projection_layer := P\<rparr>) rest (final_outputs @ [logits])))))))"

text \<open>\<open>AttentionDecoder._train_forward\<close>. \<open>sl, bs = inputs.size()\<close> needs a tensor of
  two dimensions. The \<open>constraints\<close> argument is accepted and not used.\<close>

definition AttentionDecoder_train_forward ::
  "('a, 'h, 'p) decoder \<Rightarrow> int tensor \<Rightarrow> 'h list option \<Rightarrow> 'c option \<Rightarrow>
   error + 'a tensor \<times> ('a, 'h, 'p) decoder" where
  "AttentionDecoder_train_forward D inputs hid constraints =
     (case shape inputs of
        [sl, bs] \<Rightarrow>
          bindR (embedding_layer D inputs) (\<lambda>emb.
          bindR (unbind0 emb) (\<lambda>steps.
          bindR (train_loop bs hid D steps []) (\<lambda>(final_outputs, D').
          bindR (cat0 final_outputs) (\<lambda>outputs. Inr (outputs, D')))))
      | _ \<Rightarrow> Inl ValueError)"

text \<open>\<open>AttentionDecoder._beam_forward\<close>. The stepping skeleton it delegates to,
  \<open>Decoder._beam_forward\<close>, is not among the sources and is the parameter
  \<open>super_beam_forward\<close>; the call passes \<open>inputs\<close>, \<open>hidden\<close> and
  \<open>num_beams\<close> and leaves \<open>constraints\<close> out.\<close>

definition AttentionDecoder_beam_forward ::
  "(('a, 'h, 'p) decoder \<Rightarrow> int tensor \<Rightarrow> 'h list option \<Rightarrow> int \<Rightarrow>
      error + 'r \<times> ('a, 'h, 'p) decoder) \<Rightarrow>
   ('a, 'h, 'p) decoder \<Rightarrow> int tensor \<Rightarrow> 'h list option \<Rightarrow> int \<Rightarrow> 'c option \<Rightarrow>
   error + 'r \<times> ('a, 'h, 'p) decoder" where
  "AttentionDecoder_beam_forward super_beam_forward D inputs hid num_beams constraints =
     bindR
       (case keys (projection_layer D) of
          None \<Rightarrow> Inr D
        | Some k \<Rightarrow>
            if 0 < num_beams
            then bindR (repeat_1k1 k (nat num_beams)) (\<lambda>k'.
                   Inr (D\<lparr>projection_layer := (projection_layer D)\<lparr>keys := Some k'\<rparr>\<rparr>))
            else Inr D)
       (\<lambda>D'. super_beam_forward D' inputs hid num_beams)"

section \<open>The HRED model\<close>

text \<open>
  A value that is a tensor for a GRU and a tuple of tensors (hidden, cell) for any other
  cell: the session summary the encoder returns, one entry of the decoder's state list,
  and what the decoder returns.
\<close>

datatype 'a pyval = Tens "'a tensor" | Tup "'a tensor list"

text \<open>\<open>v[i]\<close> for a non-negative index.\<close>

definition py_getitem :: "'a pyval \<Rightarrow> nat \<Rightarrow> error + 'a tensor" where
  "py_getitem v i =
     (case v of
        Tens t \<Rightarrow> index0 t i
      | Tup ts \<Rightarrow> if i < length ts then Inr (ts ! i) else Inl IndexError)"

text \<open>\<open>v[:n]\<close> for \<open>n \<ge> 0\<close>.\<close>

definition py_slice :: "'a pyval \<Rightarrow> nat \<Rightarrow> error + 'a pyval" where
  "py_slice v n =
     (case v of
        Tens t \<Rightarrow> bindR (slice0 t n) (\<lambda>u. Inr (Tens u))
      | Tup ts \<Rightarrow> Inr (Tup (take n ts)))"

text \<open>\<open>[*v]\<close>\<close>

definition py_unpack :: "'a pyval \<Rightarrow> error + 'a tensor list" where
  "py_unpack v = (case v of Tens t \<Rightarrow> unbind0 t | Tup ts \<Rightarrow> Inr ts)"

text \<open>What \<open>forward\<close> returns as predictions: a slice of the decoder's outputs, or the
  decoder's \<open>beam_outputs\<close>.\<close>

datatype 'a predictions = Logits "'a pyval" | Beams "int tensor"

text \<open>A hyperparameter or keyword argument of the constructor: a Python int, float,
  bool, string, list or \<open>None\<close>.\<close>

datatype hval = HInt int | HFloat real | HBool bool | HStr string | HList "hval list" | HNone

type_synonym kwargs = "(string \<times> hval) list"

text \<open>
  The model object. \<open>encoder\<close> is the state of the \<open>HREDEncoder\<close>, whose class is
  not among the sources; \<open>training\<close> is the flag of \<open>nn.Module\<close>.
\<close>

record ('a, 'e, 'p) hred =
  cell_type :: string
  nt :: hval
  pr_force :: real
  share_embedding_layer :: bool
  tie_decoder :: bool
  session_constraint :: bool
  training :: bool
  encoder :: 'e
  decoder :: "('a, 'a pyval, 'p) decoder"
  decoder_state_linear :: "'a tensor \<Rightarrow> error + 'a tensor"

text \<open>
  The methods of the collaborators that \<open>HRED\<close> calls and that are not among the
  sources: \<open>reset\<close> and \<open>__call__\<close> of the encoder and of the decoder, and
  \<open>assert_dims\<close> applied to the tuple of both inputs.
\<close>

record ('a, 'e, 'p) collaborators =
  assert_dims_inputs :: "int tensor list \<Rightarrow> error + int tensor list"
  encoder_reset :: "'e \<Rightarrow> nat \<Rightarrow> error + 'e"
  encoder_call :: "'e \<Rightarrow> int tensor \<Rightarrow> error + ('a tensor list \<times> 'a pyval) \<times> 'e"
  decoder_reset ::
    "('a, 'a pyval, 'p) decoder \<Rightarrow> nat \<Rightarrow> error + ('a, 'a pyval, 'p) decoder"
  decoder_call ::
    "('a, 'a pyval, 'p) decoder \<Rightarrow> int tensor \<Rightarrow> 'a pyval list option \<Rightarrow> int \<Rightarrow>
     'a pyval option \<Rightarrow> error + 'a pyval \<times> ('a, 'a pyval, 'p) decoder"

text \<open>\<open>HRED.reset_encoders\<close>\<close>

definition reset_encoders ::
  "('a, 'e, 'p) collaborators \<Rightarrow> ('a, 'e, 'p) hred \<Rightarrow> nat \<Rightarrow> error + ('a, 'e, 'p) hred" where
  "reset_encoders X m bs =
     bindR (encoder_reset X (encoder m) bs) (\<lambda>e.
     bindR (decoder_reset X (decoder m) bs) (\<lambda>d.
     Inr (m\<lparr>encoder := e, decoder := d\<rparr>)))"

text \<open>\<open>self.decoder_state_linear(v)\<close>: a linear layer takes a tensor, not a tuple.\<close>

definition linear_call ::
  "('a, 'e, 'p) hred \<Rightarrow> 'a pyval \<Rightarrow> error + 'a tensor" where
  "linear_call m v = (case v of Tens t \<Rightarrow> decoder_state_linear m t | Tup ts \<Rightarrow> Inl TypeError)"

text \<open>\<open>state[0] = v\<close> on a Python list.\<close>

definition set_item0 :: "'x list \<Rightarrow> 'x \<Rightarrow> error + 'x list" where
  "set_item0 xs v = (if xs = [] then Inl IndexError else Inr (xs[0 := v]))"

text \<open>\<open>HRED.map_session_hidden_state_to_decoder_init_state\<close>. \<open>state\<close> is the list
  object \<open>self.decoder.hidden\<close>, so the assignment to \<open>state[0]\<close> is seen through the
  decoder as well.\<close>

definition map_session_hidden_state_to_decoder_init_state ::
  "('a, 'e, 'p) hred \<Rightarrow> 'a pyval \<Rightarrow>
   error + ('a pyval list \<times> 'a pyval option) \<times> ('a, 'e, 'p) hred" where
  "map_session_hidden_state_to_decoder_init_state m last_output =
     (let state = hidden (decoder m) in
      if cell_type m = ''gru''
      then
        bindR (linear_call m last_output) (\<lambda>v.
        bindR (set_item0 state (Tens v)) (\<lambda>state'.
        Inr ((state', if session_constraint m then Some last_output else None),
             m\<lparr>decoder := (decoder m)\<lparr>hidden := state'\<rparr>\<rparr>)))
      else
        bindR (py_getitem last_output 0) (\<lambda>l0.
        bindR (decoder_state_linear m l0) (\<lambda>v0.
        bindR (py_getitem last_output 1) (\<lambda>l1.
        bindR (decoder_state_linear m l1) (\<lambda>v1.
        bindR (set_item0 state (Tup [v0, v1])) (\<lambda>state'.
        bindR (if session_constraint m
               then bindR (py_getitem last_output 0) (\<lambda>c. Inr (Some (Tens c)))
               else Inr None) (\<lambda>constraints.
        Inr ((state', constraints),
             m\<lparr>decoder := (decoder m)\<lparr>hidden := state'\<rparr>\<rparr>))))))))"

text \<open>The first branch of \<open>HRED.decoding\<close>: the decoder object as it is called, with
  \<open>pr_force\<close> copied into it in training mode, and the beam count \<open>nb\<close> it is
  called with.\<close>

definition decoding_decoder :: "('a, 'e, 'p) hred \<Rightarrow> ('a, 'a pyval, 'p) decoder" where
  "decoding_decoder m =
     (if training m then (decoder m)\<lparr>decoder_pr_force := pr_force m\<rparr> else decoder m)"

definition decoding_nb :: "('a, 'e, 'p) hred \<Rightarrow> int \<Rightarrow> int" where
  "decoding_nb m num_beams =
     (if training m then (if pr_force m < 1 then 1 else 0) else num_beams)"

text \<open>\<open>decoder_inputs.size(0)\<close>\<close>

definition size0 :: "'x tensor \<Rightarrow> error + nat" where
  "size0 t = (case shape t of [] \<Rightarrow> Inl IndexError | d # s \<Rightarrow> Inr d)"

text \<open>\<open>HRED.decoding\<close>. \<open>self.decoder.beam_outputs\<close> is an attribute that only the
  decoder sets.\<close>

definition decoding ::
  "('a, 'e, 'p) collaborators \<Rightarrow> ('a, 'e, 'p) hred \<Rightarrow> int tensor \<Rightarrow> int \<Rightarrow>
   'a pyval list \<Rightarrow> 'a pyval option \<Rightarrow>
   error + ('a pyval \<times> 'a predictions) \<times> ('a, 'e, 'p) hred" where
  "decoding X m decoder_inputs num_beams state constraints =
     bindR (decoder_call X (decoding_decoder m) decoder_inputs (Some state)
              (decoding_nb m num_beams) constraints) (\<lambda>(outputs_dec, d).
     bindR (if num_beams = 0
            then bindR (size0 decoder_inputs) (\<lambda>n.
                 bindR (py_slice outputs_dec n) (\<lambda>p. Inr (Logits p)))
            else (case beam_outputs d of
                    None \<Rightarrow> Inl AttributeError
                  | Some b \<Rightarrow> Inr (Beams b))) (\<lambda>predictions.
     Inr ((outputs_dec, predictions), m\<lparr>decoder := d\<rparr>)))"

text \<open>\<open>HRED.forward\<close>. The tuple of inputs unpacks into exactly two tensors, and
  \<open>encoder_inputs.size()\<close> into exactly three sizes.\<close>

definition forward ::
  "('a, 'e, 'p) collaborators \<Rightarrow> ('a, 'e, 'p) hred \<Rightarrow> int tensor list \<Rightarrow> int \<Rightarrow>
   error + ('a predictions \<times> 'a tensor list) \<times> ('a, 'e, 'p) hred" where
  "forward X m inputs num_beams =
     bindR (assert_dims_inputs X inputs) (\<lambda>checked.
     case checked of
       [encoder_inputs, decoder_inputs] \<Rightarrow>
         (case shape encoder_inputs of
            [num_utterances, max_sl, bs] \<Rightarrow>
              bindR (reset_encoders X m bs) (\<lambda>m1.
              bindR (encoder_call X (encoder m1) encoder_inputs) (\<lambda>((outputs, last_output), e).
              bindR (map_session_hidden_state_to_decoder_init_state (m1\<lparr>encoder := e\<rparr>)
                       last_output) (\<lambda>((state, constraints), m2).
              bindR (decoding X m2 decoder_inputs num_beams state constraints)
                (\<lambda>((outputs_dec, predictions), m3).
              bindR (py_unpack outputs_dec) (\<lambda>unpacked.
              Inr ((predictions, outputs @ unpacked), m3))))))
          | _ \<Rightarrow> Inl ValueError)
     | _ \<Rightarrow> Inl ValueError)"

section \<open>Construction\<close>

text \<open>\<open>xs[i]\<close> on a Python list; a negative index counts from the end.\<close>

definition py_index :: "'x list \<Rightarrow> int \<Rightarrow> error + 'x" where
  "py_index xs i =
     (if 0 \<le> i \<and> i < int (length xs) then Inr (xs ! nat i)
      else if i < 0 \<and> - int (length xs) \<le> i then Inr (xs ! nat (int (length xs) + i))
      else Inl IndexError)"

text \<open>\<open>kwargs.get(name, default)\<close> and \<open>kwargs.pop(name, default)\<close>\<close>

definition kw_get :: "kwargs \<Rightarrow> string \<Rightarrow> hval \<Rightarrow> hval" where
  "kw_get kw name dflt = (case map_of kw name of None \<Rightarrow> dflt | Some v \<Rightarrow> v)"

definition kw_pop :: "kwargs \<Rightarrow> string \<Rightarrow> hval \<Rightarrow> hval \<times> kwargs" where
  "kw_pop kw name dflt = (kw_get kw name dflt, filter (\<lambda>(k, v). k \<noteq> name) kw)"

text \<open>The number a Python int, float or bool stands for.\<close>

definition num_of :: "hval \<Rightarrow> real option" where
  "num_of v =
     (case v of
        HInt i \<Rightarrow> Some (of_int i)
      | HFloat x \<Rightarrow> Some x
      | HBool b \<Rightarrow> Some (if b then 1 else 0)
      | _ \<Rightarrow> None)"

text \<open>\<open>a + b\<close> on sizes: ints add; a float makes the sum a float; anything else is a
  TypeError here.\<close>

definition py_add :: "hval \<Rightarrow> hval \<Rightarrow> error + hval" where
  "py_add a b =
     (case (a, b) of
        (HInt i, HInt j) \<Rightarrow> Inr (HInt (i + j))
      | _ \<Rightarrow>
          (case (num_of a, num_of b) of
             (Some x, Some y) \<Rightarrow>
               (case (a, b) of
                  (HBool c, HBool d) \<Rightarrow> Inr (HInt ((if c then 1 else 0) + (if d then 1 else 0)))
                | (HBool c, HInt j) \<Rightarrow> Inr (HInt ((if c then 1 else 0) + j))
                | (HInt i, HBool d) \<Rightarrow> Inr (HInt (i + (if d then 1 else 0)))
                | _ \<Rightarrow> Inr (HFloat (x + y)))
           | _ \<Rightarrow> Inl TypeError))"

text \<open>\<open>a != b\<close>: numbers compare by value, everything else by structure.\<close>

definition py_ne :: "hval \<Rightarrow> hval \<Rightarrow> bool" where
  "py_ne a b =
     (case (num_of a, num_of b) of
        (Some x, Some y) \<Rightarrow> x \<noteq> y
      | _ \<Rightarrow> a \<noteq> b)"

text \<open>The arguments of \<open>HRED.__init__\<close>, with the defaults of its signature in
  \<open>default_args\<close>.\<close>

record hred_args =
  ntoken :: hval
  emb_sz :: hval
  nhid :: hval
  nlayers_arg :: hval
  pad_token :: hval
  eos_token :: hval
  max_tokens :: hval
  share_embedding_layer_arg :: bool
  tie_decoder_arg :: bool
  bidir :: bool
  session_constraint_arg :: bool
  cell_type_arg :: string
  kwargs_arg :: kwargs

definition default_args :: "hval \<Rightarrow> hval \<Rightarrow> hval \<Rightarrow> hval \<Rightarrow> hval \<Rightarrow> hval \<Rightarrow> hred_args" where
  "default_args ntok es nh nl pad eos =
     \<lparr>ntoken = ntok, emb_sz = es, nhid = nh, nlayers_arg = nl, pad_token = pad,
      eos_token = eos, max_tokens = HInt 50, share_embedding_layer_arg = False,
      tie_decoder_arg = True, bidir = False, session_constraint_arg = False,
      cell_type_arg = ''gru'', kwargs_arg = []\<rparr>"

text \<open>
  What \<open>HRED.__init__\<close> calls and the sources do not hold: the helpers \<open>get_list\<close>
  (with its optional multiplier) and \<open>get_kwarg\<close> (which may consume the entry) of
  \<open>quicknlp.utils\<close>, the constructors of the modules, given their keyword arguments
  by name, and the attributes read from what they build. The two constructors that
  are given the cell type take it as their first argument.
\<close>

record ('a, 'e, 'p, 'emb, 'rnn, 'proj) constructors =
  get_list :: "hval \<Rightarrow> int option \<Rightarrow> error + hval list"
  get_kwarg :: "kwargs \<Rightarrow> string \<Rightarrow> hval \<Rightarrow> error + hval \<times> kwargs"
  HREDEncoder :: "string \<Rightarrow> kwargs \<Rightarrow> error + 'e"
  encoder_embedding_layer :: "'e \<Rightarrow> 'emb"
  encoder_output_size :: "'e \<Rightarrow> hval"
  DropoutEmbeddings :: "kwargs \<Rightarrow> error + 'emb"
  RNNLayers :: "string \<Rightarrow> kwargs \<Rightarrow> error + 'rnn"
  rnn_output_size :: "'rnn \<Rightarrow> hval"
  Projection :: "kwargs \<Rightarrow> 'emb option \<Rightarrow> error + 'proj"
  Decoder :: "'rnn \<Rightarrow> 'proj \<Rightarrow> 'emb \<Rightarrow> kwargs \<Rightarrow> error + ('a, 'a pyval, 'p) decoder"
  decoder_layer0_output_size :: "('a, 'a pyval, 'p) decoder \<Rightarrow> error + hval"
  Linear :: "hval \<Rightarrow> hval \<Rightarrow> error + ('a tensor \<Rightarrow> error + 'a tensor)"

text \<open>\<open>get_list(get_kwarg(kwargs, name, default), n)\<close>\<close>

definition kwarg_list ::
  "('a, 'e, 'p, 'emb, 'rnn, 'proj) constructors \<Rightarrow> kwargs \<Rightarrow> string \<Rightarrow> hval \<Rightarrow> int \<Rightarrow>
   error + hval list \<times> kwargs" where
  "kwarg_list K kw name dflt n =
     bindR (get_kwarg K kw name dflt) (\<lambda>(v, kw').
     bindR (get_list K v (Some n)) (\<lambda>vs. Inr (vs, kw')))"

text \<open>Lines 43 to 56 of \<open>HRED.__init__\<close>: the hyperparameters as lists.\<close>

record hyper =
  h_ntoken :: "hval list"
  h_emb_sz :: "hval list"
  h_nhid :: "hval list"
  h_nlayers :: "hval list"
  h_dropoutd :: hval
  h_dropoute :: "hval list"
  h_dropouti :: "hval list"
  h_dropouth :: "hval list"
  h_wdrop :: "hval list"
  h_train_init :: hval
  h_dropoutinit :: "hval list"
  h_kwargs :: kwargs

definition hyperparameters ::
  "('a, 'e, 'p, 'emb, 'rnn, 'proj) constructors \<Rightarrow> hred_args \<Rightarrow> error + hyper" where
  "hyperparameters K a =
     bindR (get_list K (ntoken a) None) (\<lambda>ntok.
     bindR (get_list K (emb_sz a) (Some 2)) (\<lambda>es.
     bindR (get_list K (nhid a) (Some 3)) (\<lambda>nh.
     bindR (get_list K (nlayers_arg a) (Some 3)) (\<lambda>nl.
     bindR (get_kwarg K (kwargs_arg a) ''dropout_d'' (HFloat (1 / 2))) (\<lambda>(dd, kw1).
     bindR (kwarg_list K kw1 ''dropout_e'' (HFloat (1 / 10)) 2) (\<lambda>(de, kw2).
     bindR (kwarg_list K kw2 ''dropout_i'' (HFloat (65 / 100)) 2) (\<lambda>(di, kw3).
     bindR (kwarg_list K kw3 ''dropout_h'' (HFloat (3 / 10)) 3) (\<lambda>(dh, kw4).
     bindR (kwarg_list K kw4 ''wdrop'' (HFloat (1 / 2)) 3) (\<lambda>(wd, kw5).
     (let (ti, kw6) = kw_pop kw5 ''train_init'' (HBool False) in
     bindR (kwarg_list K kw6 ''dropout_init'' (HFloat (1 / 10)) 3) (\<lambda>(dinit, kw7).
     Inr \<lparr>h_ntoken = ntok, h_emb_sz = es, h_nhid = nh, h_nlayers = nl, h_dropoutd = dd,
          h_dropoute = de, h_dropouti = di, h_dropouth = dh, h_wdrop = wd,
          h_train_init = ti, h_dropoutinit = dinit, h_kwargs = kw7\<rparr>)))))))))))"

text \<open>Lines 63 to 76: the encoder, given the cell type.\<close>

definition build_encoder ::
  "('a, 'e, 'p, 'emb, 'rnn, 'proj) constructors \<Rightarrow> hred_args \<Rightarrow> hyper \<Rightarrow> error + 'e" where
  "build_encoder K a h =
     bindR (py_index (h_ntoken h) 0) (\<lambda>ntoken0.
     bindR (py_index (h_emb_sz h) 0) (\<lambda>emb_sz0.
     bindR (py_index (h_nlayers h) 0) (\<lambda>nlayers0.
     HREDEncoder K (cell_type_arg a)
       [(''ntoken'', ntoken0), (''emb_sz'', emb_sz0), (''nhid'', HList (take 2 (h_nhid h))),
        (''nlayers'', nlayers0), (''bidir'', HBool (bidir a)),
        (''dropout_e'', HList (take 2 (h_dropoute h))),
        (''dropout_i'', HList (take 2 (h_dropouti h))),
        (''wdrop'', HList (take 2 (h_wdrop h))), (''train_init'', h_train_init h),
        (''dropoutinit'', HList (take 2 (h_dropoutinit h)))])))"

text \<open>Lines 77 to 84: the decoder's embedding layer, the encoder's when shared.\<close>

definition build_embedding ::
  "('a, 'e, 'p, 'emb, 'rnn, 'proj) constructors \<Rightarrow> hred_args \<Rightarrow> hyper \<Rightarrow> 'e \<Rightarrow>
   error + 'emb" where
  "build_embedding K a h enc =
     (if share_embedding_layer_arg a then Inr (encoder_embedding_layer K enc)
      else
        bindR (py_index (h_ntoken h) 0) (\<lambda>ntoken0.
        bindR (py_index (h_emb_sz h) 1) (\<lambda>emb_sz1.
        bindR (py_index (h_dropoute h) 1) (\<lambda>dropoute1.
        bindR (py_index (h_dropouti h) 1) (\<lambda>dropouti1.
        DropoutEmbeddings K
          [(''ntokens'', ntoken0), (''emb_size'', emb_sz1), (''dropoute'', dropoute1),
           (''dropouti'', dropouti1)])))))"

text \<open>Lines 86 to 94: the decoder's recurrent layers, given the cell type.\<close>

definition build_decoder_rnn ::
  "('a, 'e, 'p, 'emb, 'rnn, 'proj) constructors \<Rightarrow> hred_args \<Rightarrow> hyper \<Rightarrow> 'e \<Rightarrow>
   error + 'rnn" where
  "build_decoder_rnn K a h enc =
     bindR (py_index (h_emb_sz h) 1) (\<lambda>emb_sz1.
     bindR (if session_constraint_arg a
            then py_add (kw_get (h_kwargs h) ''input_size_decoder'' emb_sz1)
                   (encoder_output_size K enc)
            else Inr (kw_get (h_kwargs h) ''input_size_decoder'' emb_sz1))
       (\<lambda>input_size_decoder.
     bindR (py_index (h_emb_sz h) 1) (\<lambda>emb_sz1'.
     bindR (py_index (h_nhid h) 2) (\<lambda>nhid2.
     bindR (py_index (h_dropouth h) 2) (\<lambda>dropouth2.
     bindR (py_index (h_wdrop h) 2) (\<lambda>wdrop2.
     bindR (py_index (h_nlayers h) 2) (\<lambda>nlayers2.
     bindR (py_index (h_dropoutinit h) 2) (\<lambda>dropoutinit2.
     RNNLayers K (cell_type_arg a)
       [(''input_size'', input_size_decoder),
        (''output_size'', kw_get (h_kwargs h) ''output_size_decoder'' emb_sz1'),
        (''nhid'', nhid2), (''bidir'', HBool False), (''dropouth'', dropouth2),
        (''wdrop'', wdrop2), (''nlayers'', nlayers2), (''train_init'', h_train_init h),
        (''dropoutinit'', dropoutinit2)]))))))))"

text \<open>Lines 97 to 109: the projection layer and the decoder.\<close>

definition build_decoder ::
  "('a, 'e, 'p, 'emb, 'rnn, 'proj) constructors \<Rightarrow> hred_args \<Rightarrow> hyper \<Rightarrow> 'emb \<Rightarrow> 'rnn \<Rightarrow>
   error + ('a, 'a pyval, 'p) decoder" where
  "build_decoder K a h emb rnn =
     (let input_size = rnn_output_size K rnn in
      bindR (py_index (h_emb_sz h) 1) (\<lambda>emb_sz1.
      bindR (if py_ne input_size emb_sz1 then py_index (h_emb_sz h) 1 else Inr HNone)
        (\<lambda>nhid'.
      bindR (py_index (h_ntoken h) 0) (\<lambda>ntoken0.
      bindR (Projection K
               [(''output_size'', ntoken0), (''input_size'', input_size), (''nhid'', nhid'),
                (''dropout'', h_dropoutd h)]
               (if tie_decoder_arg a then Some emb else None)) (\<lambda>projection.
      Decoder K rnn projection emb
        [(''pad_token'', pad_token a), (''eos_token'', eos_token a),
         (''max_tokens'', max_tokens a)])))))"

text \<open>\<open>HRED.__init__\<close>. \<open>super().__init__()\<close> leaves the module in training mode.\<close>

definition HRED_init ::
  "('a, 'e, 'p, 'emb, 'rnn, 'proj) constructors \<Rightarrow> hred_args \<Rightarrow>
   error + ('a, 'e, 'p) hred" where
  "HRED_init K a =
     bindR (hyperparameters K a) (\<lambda>h.
     bindR (py_index (h_ntoken h) (- 1)) (\<lambda>ntoken_last.
     bindR (build_encoder K a h) (\<lambda>enc.
     bindR (build_embedding K a h enc) (\<lambda>emb.
     bindR (build_decoder_rnn K a h enc) (\<lambda>rnn.
     bindR (build_decoder K a h emb rnn) (\<lambda>dec.
     bindR (decoder_layer0_output_size K dec) (\<lambda>out_features.
     bindR (Linear K (encoder_output_size K enc) out_features) (\<lambda>linear.
     Inr \<lparr>cell_type = cell_type_arg a, nt = ntoken_last, pr_force = 1,
          share_embedding_layer = share_embedding_layer_arg a,
          tie_decoder = tie_decoder_arg a,
          session_constraint = session_constraint_arg a, training = True,
          encoder = enc, decoder = dec, decoder_state_linear = linear\<rparr>))))))))"

section \<open>Collaborators described by the specification only\<close>

text \<open>Modelled from the spec: \<open>Decoder.reset\<close> is not among the sources. By the spec,
  \<open>reset(batch_size)\<close> reinitializes all recurrent sub-states to the explicit learned
  or zero initial state, here \<open>init bs\<close>; the spec names nothing else that it
  changes.\<close>

definition Decoder_reset ::
  "(nat \<Rightarrow> 'h list) \<Rightarrow> ('a, 'h, 'p) decoder \<Rightarrow> nat \<Rightarrow> error + ('a, 'h, 'p) decoder" where
  "Decoder_reset init D bs = Inr (D\<lparr>hidden := init bs\<rparr>)"

text \<open>\<open>[f(x) for x in xs]\<close>, stopping at the first call that raises.\<close>

fun collect :: "('x \<Rightarrow> error + 'y) \<Rightarrow> 'x list \<Rightarrow> error + 'y list" where
  "collect f [] = Inr []"
| "collect f (x # xs) = bindR (f x) (\<lambda>y. bindR (collect f xs) (\<lambda>ys. Inr (y # ys)))"

text \<open>Modelled from the spec: the per-step input of the base class \<open>Decoder\<close>, which
  is not among the sources. By the spec, step 2 of the decoder: embed the chosen token;
  if the constraint vector is present, concatenate it. The embedded step gets its
  leading dimension of 1, and the constraint, a tensor of \<open>[1, bs, ed]\<close>, goes after
  it along the last dimension.\<close>

definition Decoder_step_input :: "'a pyval option \<Rightarrow> 'a tensor \<Rightarrow> error + 'a tensor" where
  "Decoder_step_input constraints step =
     (case constraints of
        None \<Rightarrow> Inr (unsqueeze0 step)
      | Some (Tens v) \<Rightarrow> cat_last (unsqueeze0 step) v
      | Some (Tup vs) \<Rightarrow> Inl TypeError)"

text \<open>Modelled from the spec: the inputs of the recurrent layers for the tokens
  \<open>inputs\<close>, one per step: each token embedded, with the constraint after it.\<close>

definition Decoder_step_inputs ::
  "('a, 'h, 'p) decoder \<Rightarrow> int tensor \<Rightarrow> 'a pyval option \<Rightarrow> error + 'a tensor list" where
  "Decoder_step_inputs D inputs constraints =
     bindR (embedding_layer D inputs) (\<lambda>emb.
     bindR (unbind0 emb) (\<lambda>steps.
     collect (Decoder_step_input constraints) steps))"

text \<open>Modelled from the spec: steps 3 and 4 of the decoder of the base class. The input
  is fed through the stacked recurrent layers, with dropout between the layers and not
  after the last (the loop of \<open>_rnn_step\<close> above), from the state the decoder holds;
  the output of the last layer is projected to logits; the decoder state is updated
  in place for the next step.\<close>

definition Decoder_step ::
  "('a, 'h, 'p) decoder \<Rightarrow> 'a tensor \<Rightarrow> error + 'a tensor \<times> ('a, 'h, 'p) decoder" where
  "Decoder_step D x =
     bindR (rnn_step_loop (nlayers D) (Some (hidden D)) 0 (zip (layers D) (dropouths D)) x [] [])
       (\<lambda>(new_hidden, outputs).
     bindR (py_last outputs) (\<lambda>out.
     bindR (index0 out 0) (\<lambda>r0.
     bindR (projection_call D (projection_layer D) r0) (\<lambda>(logits, P).
     Inr (logits, D\<lparr>hidden := new_hidden, projection_layer := P\<rparr>)))))"

text \<open>Modelled from the spec: the steps of the decoder of the base class one after
  the other, each from the decoder as the step before left it, with the logits of each
  appended to the output sequence.\<close>

fun Decoder_run ::
  "('a, 'h, 'p) decoder \<Rightarrow> 'a tensor list \<Rightarrow> 'a tensor list \<Rightarrow>
   error + 'a tensor list \<times> ('a, 'h, 'p) decoder" where
  "Decoder_run D [] final_outputs = Inr (final_outputs, D)"
| "Decoder_run D (x # xs) final_outputs =
     bindR (Decoder_step D x) (\<lambda>(logits, D'). Decoder_run D' xs (final_outputs @ [logits]))"

text \<open>The decoder as a call starts: with the state list it is given, if any.\<close>

definition Decoder_start :: "('a, 'h, 'p) decoder \<Rightarrow> 'h list option \<Rightarrow> ('a, 'h, 'p) decoder" where
  "Decoder_start D hid = (case hid of None \<Rightarrow> D | Some hs \<Rightarrow> D\<lparr>hidden := hs\<rparr>)"

text \<open>Modelled from the spec: \<open>Decoder._train_forward\<close>, the teacher-forced path of the
  base class, is not among the sources. By the spec, for each target step the token is
  embedded, the constraint vector concatenated if present, the result fed through the
  layers and projected, and the logits appended to the output sequence, which is
  returned in full. The token is the ground-truth token: \<open>HRED.decoding\<close> calls the
  decoder with 0 beams in evaluation mode or with \<open>pr_force \<ge> 1\<close> only, where the
  spec's choice between ground truth and prediction takes the ground truth.\<close>

definition Decoder_train_forward ::
  "('a, 'h, 'p) decoder \<Rightarrow> int tensor \<Rightarrow> 'h list option \<Rightarrow> 'a pyval option \<Rightarrow>
   error + 'a pyval \<times> ('a, 'h, 'p) decoder" where
  "Decoder_train_forward D inputs hid constraints =
     (case shape inputs of
        [sl, bs] \<Rightarrow>
          bindR (Decoder_step_inputs D inputs constraints) (\<lambda>xs.
          bindR (Decoder_run (Decoder_start D hid) xs []) (\<lambda>(final_outputs, D').
          bindR (cat0 final_outputs) (\<lambda>outputs. Inr (Tens outputs, D'))))
      | _ \<Rightarrow> Inl ValueError)"

text \<open>The index of the first greatest element of a list: the standard numeric argmax,
  first index on exact ties.\<close>

fun argmax_from :: "'a::linorder \<Rightarrow> nat \<Rightarrow> nat \<Rightarrow> 'a list \<Rightarrow> nat" where
  "argmax_from greatest i j [] = i"
| "argmax_from greatest i j (x # xs) =
     (if greatest < x then argmax_from x j (Suc j) xs
      else argmax_from greatest i (Suc j) xs)"

definition first_argmax :: "'a::linorder list \<Rightarrow> int" where
  "first_argmax xs = (case xs of [] \<Rightarrow> 0 | x # rest \<Rightarrow> int (argmax_from x 0 1 rest))"

text \<open>Modelled from the spec: the model's own highest-probability prediction, the
  argmax of the logits along the vocabulary dimension; logits of \<open>[1, bs, V]\<close> give
  tokens of \<open>[1, bs]\<close>. There is no argmax over an empty vocabulary.\<close>

definition highest_tokens :: "'a::linorder tensor \<Rightarrow> error + int tensor" where
  "highest_tokens logits =
     (if shape logits = [] \<or> last (shape logits) = 0 then Inl RuntimeError
      else
        (let v = last (shape logits); n = prod_list (butlast (shape logits))
         in Inr \<lparr>shape = butlast (shape logits),
                  elems = map (\<lambda>i. first_argmax (take v (drop (i * v) (elems logits))))
                            [0..<n]\<rparr>))"

text \<open>Modelled from the spec: one step of the decoder on a token of \<open>[1, bs]\<close>: the
  token embedded, the constraint concatenated, the layers run and the output
  projected.\<close>

definition Decoder_token_step ::
  "'a pyval option \<Rightarrow> ('a, 'h, 'p) decoder \<Rightarrow> int tensor \<Rightarrow>
   error + 'a tensor \<times> ('a, 'h, 'p) decoder" where
  "Decoder_token_step constraints D tok =
     bindR (Decoder_step_inputs D tok constraints) (\<lambda>xs.
     case xs of [x] \<Rightarrow> Decoder_step D x | _ \<Rightarrow> Inl RuntimeError)"

text \<open>Modelled from the spec: the decoder's loop with scheduled sampling, which is in
  the base class and not among the sources. By the spec, at each target step the input
  token is, with probability \<open>pr_force\<close>, the ground-truth token, and otherwise the
  model's own highest-probability prediction from the step before; the token goes
  through \<open>step\<close> (embedding, layers, projection), which also updates the decoder
  state for the next step. The first step has no prediction before it and takes the
  ground-truth token.
  Each step comes with its ground-truth token and its random draw from \<open>[0, 1)\<close>: the
  ground truth is taken when the draw is below \<open>pr_force\<close>. The result lists, per
  step, the token that went through \<open>step\<close> and the logits that came out.\<close>

fun sampled_loop ::
  "real \<Rightarrow> ('d \<Rightarrow> 'tok \<Rightarrow> error + 'l \<times> 'd) \<Rightarrow> ('l \<Rightarrow> error + 'tok) \<Rightarrow> 'd \<Rightarrow> 'tok option \<Rightarrow>
   ('tok \<times> real) list \<Rightarrow> error + ('tok \<times> 'l) list \<times> 'd" where
  "sampled_loop pf step best D prev [] = Inr ([], D)"
| "sampled_loop pf step best D prev ((truth, draw) # rest) =
     (let tok = (case prev of
                   None \<Rightarrow> truth
                 | Some p \<Rightarrow> if draw < pf then truth else p)
      in bindR (step D tok) (\<lambda>(logits, D').
         bindR (best logits) (\<lambda>p.
         bindR (sampled_loop pf step best D' (Some p) rest) (\<lambda>(trace, D'').
         Inr ((tok, logits) # trace, D'')))))"

text \<open>Modelled from the spec: the sampled loop on the decoder object, over the rows of
  the target tokens \<open>inputs\<close> of \<open>[T, bs]\<close>, with the \<open>pr_force\<close> the decoder holds
  and the draw \<open>draws t\<close> at step \<open>t\<close>; and the path of the decoder that runs it and
  returns the logits of all steps.\<close>

definition Decoder_sampled_trace ::
  "(nat \<Rightarrow> real) \<Rightarrow> ('a::linorder, 'h, 'p) decoder \<Rightarrow> int tensor \<Rightarrow> 'h list option \<Rightarrow>
   'a pyval option \<Rightarrow> error + (int tensor \<times> 'a tensor) list \<times> ('a, 'h, 'p) decoder" where
  "Decoder_sampled_trace draws D inputs hid constraints =
     bindR (unbind0 inputs) (\<lambda>rows.
     sampled_loop (decoder_pr_force D) (Decoder_token_step constraints) highest_tokens
       (Decoder_start D hid) None
       (zip (map unsqueeze0 rows) (map draws [0..<length rows])))"

definition Decoder_sampled_forward ::
  "(nat \<Rightarrow> real) \<Rightarrow> ('a::linorder, 'h, 'p) decoder \<Rightarrow> int tensor \<Rightarrow> 'h list option \<Rightarrow>
   'a pyval option \<Rightarrow> error + 'a pyval \<times> ('a, 'h, 'p) decoder" where
  "Decoder_sampled_forward draws D inputs hid constraints =
     (case shape inputs of
        [sl, bs] \<Rightarrow>
          bindR (Decoder_sampled_trace draws D inputs hid constraints) (\<lambda>(trace, D').
          bindR (cat0 (map snd trace)) (\<lambda>outputs. Inr (Tens outputs, D')))
      | _ \<Rightarrow> Inl ValueError)"

text \<open>Modelled from the spec: \<open>Decoder.forward\<close>, the dispatch of the base class, is
  not among the sources. The spec's public contract: \<open>num_beams=0\<close> selects
  teacher-forced mode and \<open>num_beams>0\<close> selects generation mode, where one beam must
  reduce to greedy decoding; it names no mode for a negative count, which is refused
  here. One beam is the count \<open>HRED.decoding\<close> passes in training mode with
  \<open>pr_force < 1\<close>, and runs the loop with scheduled sampling; the skeleton of beam
  search for more beams is the parameter \<open>beam_forward\<close>.\<close>

definition Decoder_forward ::
  "(nat \<Rightarrow> real) \<Rightarrow>
   (('a::linorder, 'h, 'p) decoder \<Rightarrow> int tensor \<Rightarrow> 'h list option \<Rightarrow> int \<Rightarrow>
      'a pyval option \<Rightarrow> error + 'a pyval \<times> ('a, 'h, 'p) decoder) \<Rightarrow>
   ('a, 'h, 'p) decoder \<Rightarrow> int tensor \<Rightarrow> 'h list option \<Rightarrow> int \<Rightarrow> 'a pyval option \<Rightarrow>
   error + 'a pyval \<times> ('a, 'h, 'p) decoder" where
  "Decoder_forward draws beam_forward D inputs hid num_beams constraints =
     (if num_beams = 0 then Decoder_train_forward D inputs hid constraints
      else if num_beams = 1 then Decoder_sampled_forward draws D inputs hid constraints
      else if 1 < num_beams then beam_forward D inputs hid num_beams constraints
      else Inl ValueError)"

text \<open>Modelled from the spec: the same dispatch for the attention decoder, which
  overrides the teacher-forced path and the entry to beam search and inherits the path
  for one beam, the parameter \<open>greedy_forward\<close>. Its teacher-forced path returns a
  tensor.\<close>

definition AttentionDecoder_forward ::
  "(('a, 'h, 'p) decoder \<Rightarrow> int tensor \<Rightarrow> 'h list option \<Rightarrow> 'c option \<Rightarrow>
      error + 'a pyval \<times> ('a, 'h, 'p) decoder) \<Rightarrow>
   (('a, 'h, 'p) decoder \<Rightarrow> int tensor \<Rightarrow> 'h list option \<Rightarrow> int \<Rightarrow>
      error + 'a pyval \<times> ('a, 'h, 'p) decoder) \<Rightarrow>
   ('a, 'h, 'p) decoder \<Rightarrow> int tensor \<Rightarrow> 'h list option \<Rightarrow> int \<Rightarrow> 'c option \<Rightarrow>
   error + 'a pyval \<times> ('a, 'h, 'p) decoder" where
  "AttentionDecoder_forward greedy_forward super_beam_forward D inputs hid num_beams
       constraints =
     (if num_beams = 0
      then bindR (AttentionDecoder_train_forward D inputs hid constraints)
             (\<lambda>(outputs, D'). Inr (Tens outputs, D'))
      else if num_beams = 1 then greedy_forward D inputs hid constraints
      else if 1 < num_beams
      then AttentionDecoder_beam_forward super_beam_forward D inputs hid num_beams constraints
      else Inl ValueError)"

text \<open>The contract of the recurrent layers of the attention decoder for batch size
  \<open>bs\<close>, the state list \<open>hs\<close> they are given and the widths \<open>ws\<close> of what goes
  in and comes out of each: layer \<open>i\<close> has an entry in the state list and, on an input
  of \<open>[1, bs, w]\<close> with that entry as state, returns an output of \<open>[1, bs, w']\<close>
  and a new state; its dropout returns a tensor of the shape it is given. Nothing is
  asked of a layer on an input of any other shape.\<close>

fun layers_contract ::
  "nat \<Rightarrow> 'h list \<Rightarrow> nat \<Rightarrow>
   (('a tensor \<Rightarrow> 'h \<Rightarrow> error + 'a tensor \<times> 'h) \<times> ('a tensor \<Rightarrow> error + 'a tensor)) list \<Rightarrow>
   nat list \<Rightarrow> bool" where
  "layers_contract bs hs i [] ws = (length ws = 1)"
| "layers_contract bs hs i ((rnn, dropout) # zs) ws =
     (case ws of
        w # w' # rest \<Rightarrow>
          i < length hs \<and>
          (\<forall>x. shape x = [1, bs, w] \<longrightarrow>
             (\<exists>out h'. rnn x (hs ! i) = Inr (out, h') \<and> shape out = [1, bs, w'])) \<and>
          (\<forall>x. shape x = [1, bs, w'] \<longrightarrow>
             (\<exists>y. dropout x = Inr y \<and> shape y = [1, bs, w'])) \<and>
          layers_contract bs hs (Suc i) zs (w' # rest)
      | _ \<Rightarrow> False)"

text \<open>The contract of the collaborators of the attention decoder for batch size
  \<open>bs\<close> and vocabulary size \<open>V\<close>, as the spec's external interfaces give it: on an
  embedded step of \<open>[bs, emb_size]\<close> the attention output has that shape; there is
  at least one recurrent layer, the first takes inputs of width \<open>2 * emb_size\<close> (the
  embedded step and the attention output), each the output of the one before, and
  the last returns width \<open>emb_size\<close>; the projection layer maps \<open>[bs, emb_size]\<close>
  to logits of \<open>[1, bs, V]\<close>.\<close>

definition collaborator_contract ::
  "('a, 'h, 'p) decoder \<Rightarrow> nat \<Rightarrow> nat \<Rightarrow> 'h list \<Rightarrow> nat list \<Rightarrow> bool" where
  "collaborator_contract D bs V hs ws =
     ((\<forall>P s. shape s = [bs, emb_size D] \<longrightarrow>
         (\<exists>att. get_attention_output D P s = Inr att \<and> shape att = [bs, emb_size D])) \<and>
      (\<forall>P r. shape r = [bs, emb_size D] \<longrightarrow>
         (\<exists>l P'. projection_call D P r = Inr (l, P') \<and> shape l = [1, bs, V])) \<and>
      zip (layers D) (dropouths D) \<noteq> [] \<and>
      ws \<noteq> [] \<and> hd ws = emb_size D * 2 \<and> last ws = emb_size D \<and>
      layers_contract bs hs 0 (zip (layers D) (dropouths D)) ws)"

section \<open>Concrete models\<close>

text \<open>A decoder over integers with an embedding of size 1: a token is embedded as
  itself, the attention output is zero, the one recurrent layer returns the sum of its
  input and its state as output and as new state (in each half of a paired state), and
  the projection is the identity.\<close>

definition unit_embedding :: "int tensor \<Rightarrow> error + int tensor" where
  "unit_embedding t = Inr \<lparr>shape = shape t @ [1], elems = elems t\<rparr>"

definition zeros_like :: "int tensor \<Rightarrow> int tensor" where
  "zeros_like t = t\<lparr>elems := map (\<lambda>x. 0) (elems t)\<rparr>"

definition sum_cell :: "int tensor \<Rightarrow> int pyval \<Rightarrow> error + int tensor \<times> int pyval" where
  "sum_cell x h =
     (case h of
        Tens t \<Rightarrow>
          (let out = \<lparr>shape = [1, 1, 1], elems = [sum_list (elems x) + sum_list (elems t)]\<rparr>
           in Inr (out, Tens out))
      | Tup ts \<Rightarrow>
          (let out = \<lparr>shape = [1, 1, 1],
                      elems = [sum_list (elems x) + sum_list (concat (map elems ts))]\<rparr>
           in Inr (out, Tup (map (\<lambda>t. out) ts))))"

definition scalar3 :: "int \<Rightarrow> int tensor" where
  "scalar3 v = \<lparr>shape = [1, 1, 1], elems = [v]\<rparr>"

definition sum_decoder :: "(int, int pyval, unit) decoder" where
  "sum_decoder =
     \<lparr>embedding_layer = unit_embedding,
      layers = [sum_cell],
      dropouths = [Inr],
      hidden = [Tens (scalar3 0)],
      nlayers = 1,
      emb_size = 1,
      projection_layer = \<lparr>keys = None, pstate = ()\<rparr>,
      projection_call = (\<lambda>P t. Inr (unsqueeze0 t, P)),
      get_attention_output = (\<lambda>P t. Inr (zeros_like t)),
      decoder_pr_force = 1,
      beam_outputs = None\<rparr>"

text \<open>Two target steps for a batch of one, both with token 5.\<close>

definition two_steps :: "int tensor" where
  "two_steps = \<lparr>shape = [2, 1], elems = [5, 5]\<rparr>"

text \<open>What a call of the decoder shows: the outputs, the state list and the beam
  outputs it leaves.\<close>

definition observe ::
  "error + 'r \<times> ('a, 'h, 'p) decoder \<Rightarrow> error + 'r \<times> 'h list \<times> int tensor option" where
  "observe r = (case r of Inl e \<Rightarrow> Inl e | Inr (x, D) \<Rightarrow> Inr (x, hidden D, beam_outputs D))"

text \<open>A stepping skeleton for beam search that returns the keys it was given.\<close>

definition echo_keys ::
  "(int, int pyval, unit) decoder \<Rightarrow> int tensor \<Rightarrow> int pyval list option \<Rightarrow> int \<Rightarrow>
   error + int pyval \<times> (int, int pyval, unit) decoder" where
  "echo_keys D inputs hid num_beams =
     (case keys (projection_layer D) of
        None \<Rightarrow> Inl RuntimeError
      | Some k \<Rightarrow> Inr (Tens k, D))"

text \<open>Collaborators of the model for the decoder above as an attention decoder: an
  encoder without state whose session summary is zero, and the decoder's reset and
  dispatch as the spec describes them, with every draw at one half.\<close>

definition sum_collaborators :: "(int, unit, unit) collaborators" where
  "sum_collaborators =
     \<lparr>assert_dims_inputs = (\<lambda>ins. if length ins = 2 then Inr ins else Inl AssertionError),
      encoder_reset = (\<lambda>e bs. Inr e),
      encoder_call = (\<lambda>e t. Inr (([], Tens (scalar3 0)), e)),
      decoder_reset = Decoder_reset (\<lambda>bs. [Tens (scalar3 0)]),
      decoder_call = AttentionDecoder_forward (Decoder_sampled_forward (\<lambda>t. 1 / 2)) echo_keys\<rparr>"

text \<open>Collaborators of the model for the same decoder as a decoder of the base class,
  with an encoder whose session summary is 9. Beam search with more than one beam is
  left out.\<close>

definition plain_collaborators :: "(int, unit, unit) collaborators" where
  "plain_collaborators =
     \<lparr>assert_dims_inputs = (\<lambda>ins. if length ins = 2 then Inr ins else Inl AssertionError),
      encoder_reset = (\<lambda>e bs. Inr e),
      encoder_call = (\<lambda>e t. Inr (([], Tens (scalar3 9)), e)),
      decoder_reset = Decoder_reset (\<lambda>bs. [Tens (scalar3 0)]),
      decoder_call = Decoder_forward (\<lambda>t. 1 / 2) (\<lambda>D i h n c. Inl NotImplementedError)\<rparr>"

definition sum_model :: "int tensor option \<Rightarrow> (int, unit, unit) hred" where
  "sum_model leftover =
     \<lparr>cell_type = ''gru'', nt = HInt 10, pr_force = 1, share_embedding_layer = False,
      tie_decoder = True, session_constraint = True, training = True, encoder = (),
      decoder = sum_decoder\<lparr>beam_outputs := leftover\<rparr>,
      decoder_state_linear = Inr\<rparr>"

text \<open>What a call of \<open>forward\<close> returns, without the model.\<close>

definition returned :: "error + 'r \<times> ('a, 'e, 'p) hred \<Rightarrow> error + 'r" where
  "returned r = (case r of Inl e \<Rightarrow> Inl e | Inr (x, m) \<Rightarrow> Inr x)"

text \<open>Stand-ins for the helpers and constructors that \<open>HRED.__init__\<close> calls,
  for the default cell type \<open>gru\<close> alone: they build the decoder above.
  \<open>get_list\<close> repeats a single value and checks the length of a list;
  \<open>get_kwarg\<close> takes the entry out of the keyword arguments. What the constructors
  of the repository do with any other cell type is not modelled.\<close>

definition gru_get_list :: "hval \<Rightarrow> int option \<Rightarrow> error + hval list" where
  "gru_get_list v multiplier =
     (let n = (case multiplier of None \<Rightarrow> 1 | Some k \<Rightarrow> k) in
      case v of
        HList xs \<Rightarrow> if int (length xs) = n then Inr xs else Inl AssertionError
      | _ \<Rightarrow> Inr (replicate (nat n) v))"

definition gru_constructors :: "(int, unit, unit, unit, unit, unit) constructors" where
  "gru_constructors =
     \<lparr>get_list = gru_get_list,
      get_kwarg = (\<lambda>kw name dflt. Inr (kw_pop kw name dflt)),
      HREDEncoder = (\<lambda>ct kw. if ct = ''gru'' then Inr () else Inl NotImplementedError),
      encoder_embedding_layer = (\<lambda>e. ()),
      encoder_output_size = (\<lambda>e. HInt 1),
      DropoutEmbeddings = (\<lambda>kw. Inr ()),
      RNNLayers = (\<lambda>ct kw. if ct = ''gru'' then Inr () else Inl NotImplementedError),
      rnn_output_size = (\<lambda>r. HInt 1),
      Projection = (\<lambda>kw tie. Inr ()),
      Decoder = (\<lambda>rnn proj emb kw. Inr sum_decoder),
      decoder_layer0_output_size = (\<lambda>d. Inr (HInt 1)),
      Linear = (\<lambda>i out. Inr Inr)\<rparr>"

text \<open>What a caller does with a model between construction and now: calls of
  \<open>forward\<close>, and switches between training and evaluation mode.\<close>

datatype call = Forward "int tensor list" int | SetTraining bool

fun run_calls ::
  "('a, 'e, 'p) collaborators \<Rightarrow> ('a, 'e, 'p) hred \<Rightarrow> call list \<Rightarrow>
   error + ('a, 'e, 'p) hred" where
  "run_calls X m [] = Inr m"
| "run_calls X m (Forward inputs num_beams # rest) =
     bindR (forward X m inputs num_beams) (\<lambda>(r, m'). run_calls X m' rest)"
| "run_calls X m (SetTraining b # rest) = run_calls X (m\<lparr>training := b\<rparr>) rest"

text \<open>Arguments of the constructor, all else at its defaults, and the utterances of a
  conversation of one utterance of one token, for a batch of one.\<close>

definition demo_args :: hred_args where
  "demo_args = default_args (HInt 10) (HInt 1) (HInt 1) (HInt 1) (HInt 0) (HInt 1)"

definition one_utterance :: "int tensor" where
  "one_utterance = \<lparr>shape = [1, 1, 1], elems = [3]\<rparr>"

text \<open>Three target steps with the tokens 5, 9 and 7, and a target of no step, for a
  batch of one.\<close>

definition three_steps :: "int tensor" where
  "three_steps = \<lparr>shape = [3, 1], elems = [5, 9, 7]\<rparr>"

definition empty_target :: "int tensor" where
  "empty_target = \<lparr>shape = [0, 1], elems = []\<rparr>"

text \<open>The decoder above with a vocabulary of three: the logits of a step are 0 for
  token 0, the output of the layer for token 1 and 1 for token 2.\<close>

definition wide_decoder :: "(int, int pyval, unit) decoder" where
  "wide_decoder =
     sum_decoder\<lparr>projection_call :=
       (\<lambda>P t. Inr (\<lparr>shape = [1, 1, 3], elems = [0, sum_list (elems t), 1]\<rparr>, P))\<rparr>"

text \<open>Attention keys for two source steps and a batch of two.\<close>

definition four_keys :: "int tensor" where
  "four_keys = \<lparr>shape = [2, 2, 1], elems = [1, 2, 3, 4]\<rparr>"

definition keyed_decoder :: "(int, int pyval, unit) decoder" where
  "keyed_decoder = sum_decoder\<lparr>projection_layer := \<lparr>keys = Some four_keys, pstate = ()\<rparr>\<rparr>"

text \<open>What stays of a model over its calls.\<close>

definition config :: "('a, 'e, 'p) hred \<Rightarrow> string \<times> real \<times> bool \<times> bool" where
  "config m = (cell_type m, pr_force m, session_constraint m, training m)"

section \<open>Properties\<close>

lemma bindR_simps [simp]:
  "bindR (Inl e) f = Inl e"
  "bindR (Inr x) f = f x"
  by (simp_all add: bindR_def)

lemma bindR_eq_Inr:
  "bindR m f = Inr y \<longleftrightarrow> (\<exists>x. m = Inr x \<and> f x = Inr y)"
  by (cases m) simp_all

subsection \<open>The recurrent state in teacher-forced mode\<close>

text \<open>
  C1. The claim: in teacher-forced mode the output of step t is computed from the
  decoder state that step t-1 produced. The code at two steps with the same token, a
  layer that returns input plus state, and initial state 0: the first step returns 5
  and stores the state 5. From that state the second step would return 10. It returns
  5 again: \<open>_train_forward\<close> hands the \<open>hidden\<close> it was called with to every step,
  and only the stored state, which no step reads, has moved on.
\<close>

theorem train_forward_reuses_initial_state:
  "observe (AttentionDecoder_train_forward sum_decoder two_steps (Some [Tens (scalar3 0)])
              (None :: unit option))
     = Inr (\<lparr>shape = [2, 1, 1], elems = [5, 5]\<rparr>, [Tens (scalar3 5)], None)
   \<and> sum_cell \<lparr>shape = [1, 1, 2], elems = [5, 0]\<rparr> (Tens (scalar3 5))
     = Inr (scalar3 10, Tens (scalar3 10))"
  by code_simp

subsection \<open>The beam count in training mode\<close>



subsection \<open>The state bridge\<close>

lemma set_item0_Inr:
  "set_item0 xs v = Inr ys \<Longrightarrow> xs \<noteq> [] \<and> ys = xs[0 := v]"
  by (simp add: set_item0_def split: if_splits)

lemma bridge_result:
  assumes "map_session_hidden_state_to_decoder_init_state m lo = Inr ((state, c), m')"
  shows "\<exists>v. hidden (decoder m) \<noteq> [] \<and> state = (hidden (decoder m))[0 := v] \<and>
             m' = m\<lparr>decoder := (decoder m)\<lparr>hidden := state\<rparr>\<rparr>"
  using assms
  by (auto simp add: map_session_hidden_state_to_decoder_init_state_def Let_def bindR_eq_Inr
      dest!: set_item0_Inr split: if_splits)

text \<open>
  C7. The state bridge writes entry 0 of the decoder's state list only: the list it
  returns has the length of the decoder's list and its entries from 1 on, and it is
  the list the decoder holds afterwards. In \<open>forward\<close> the bridge runs on the model
  as \<open>reset_encoders\<close> and the encoder left it, so the entries from 1 on are those
  that the decoder's reset produced.
\<close>

theorem bridge_writes_layer_0_only:
  assumes "map_session_hidden_state_to_decoder_init_state m lo = Inr ((state, c), m')"
  shows "length state = length (hidden (decoder m))
       \<and> drop 1 state = drop 1 (hidden (decoder m))
       \<and> (\<forall>i. 0 < i \<longrightarrow> i < length state \<longrightarrow> state ! i = hidden (decoder m) ! i)
       \<and> hidden (decoder m') = state
       \<and> (\<forall>X m0 bs m1 e. reset_encoders X m0 bs = Inr m1 \<longrightarrow> m = m1\<lparr>encoder := e\<rparr> \<longrightarrow>
            (\<exists>d. decoder_reset X (decoder m0) bs = Inr d \<and> drop 1 state = drop 1 (hidden d)))"
proof -
  from bridge_result [OF assms] obtain v where
    s: "state = (hidden (decoder m))[0 := v]" and
    m': "m' = m\<lparr>decoder := (decoder m)\<lparr>hidden := state\<rparr>\<rparr>" by blast
  have d: "drop 1 state = drop 1 (hidden (decoder m))"
    unfolding s by (cases "hidden (decoder m)") simp_all
  have r: "\<exists>d. decoder_reset X (decoder m0) bs = Inr d \<and> drop 1 state = drop 1 (hidden d)"
    if "reset_encoders X m0 bs = Inr m1" and "m = m1\<lparr>encoder := e\<rparr>" for X m0 bs m1 e
  proof -
    from that(1) obtain e' d' where "decoder_reset X (decoder m0) bs = Inr d'"
      and "m1 = m0\<lparr>encoder := e', decoder := d'\<rparr>"
      by (auto simp add: reset_encoders_def bindR_eq_Inr)
    with that(2) d show ?thesis by simp
  qed
  from d s m' r show ?thesis by simp
qed

theorem bridge_writes_layer_0_only_witness:
  "\<exists>c m'. map_session_hidden_state_to_decoder_init_state
       ((sum_model None)\<lparr>decoder := sum_decoder\<lparr>hidden := [Tens (scalar3 0), Tens (scalar3 7)]\<rparr>\<rparr>)
       (Tens (scalar3 3))
     = Inr (([Tens (scalar3 3), Tens (scalar3 7)], c), m')
   \<and> hidden (decoder m') = [Tens (scalar3 3), Tens (scalar3 7)]
   \<and> drop 1 [Tens (scalar3 3), Tens (scalar3 7)] = drop 1 [Tens (scalar3 0), Tens (scalar3 7 :: int tensor)]"
proof -
  let ?m = "(sum_model None)\<lparr>decoder := sum_decoder\<lparr>hidden := [Tens (scalar3 0), Tens (scalar3 7)]\<rparr>\<rparr>"
  obtain c m' where e: "map_session_hidden_state_to_decoder_init_state ?m (Tens (scalar3 3))
      = Inr (([Tens (scalar3 3), Tens (scalar3 7)], c), m')"
    by (simp add: map_session_hidden_state_to_decoder_init_state_def sum_model_def
        linear_call_def set_item0_def)
  from bridge_writes_layer_0_only [OF e] e show ?thesis
    by (auto simp add: sum_model_def)
qed

subsection \<open>The steps of \<open>forward\<close>\<close>

lemma bindR_cong:
  "(\<And>x. m = Inr x \<Longrightarrow> f x = g x) \<Longrightarrow> bindR m f = bindR m g"
  by (cases m) simp_all

lemma unbind0_Inr:
  "unbind0 t = Inr steps \<Longrightarrow> steps = map (select0 t) [0..<hd (shape t)]"
  by (cases "shape t") (simp_all add: unbind0_def)

lemma forward_Inr:
  assumes "forward X m inputs nb = Inr (r, m')"
  shows "\<exists>ei di nu ms bs m1 outs lo e st cs m2 od pr un.
           assert_dims_inputs X inputs = Inr [ei, di] \<and> shape ei = [nu, ms, bs] \<and>
           reset_encoders X m bs = Inr m1 \<and>
           encoder_call X (encoder m1) ei = Inr ((outs, lo), e) \<and>
           map_session_hidden_state_to_decoder_init_state (m1\<lparr>encoder := e\<rparr>) lo
             = Inr ((st, cs), m2) \<and>
           decoding X m2 di nb st cs = Inr ((od, pr), m') \<and>
           py_unpack od = Inr un \<and> r = (pr, outs @ un)"
proof -
  from assms obtain checked where c: "assert_dims_inputs X inputs = Inr checked"
    by (auto simp add: forward_def bindR_eq_Inr)
  from assms c obtain ei di where l: "checked = [ei, di]"
    by (auto simp add: forward_def split: list.splits)
  from assms c l obtain nu ms bs where sh: "shape ei = [nu, ms, bs]"
    by (auto simp add: forward_def split: list.splits)
  from assms c l sh show ?thesis
    by (auto simp add: forward_def bindR_eq_Inr)
qed

lemma reset_encoders_config:
  "reset_encoders X m bs = Inr m1 \<Longrightarrow> config m1 = config m"
  by (auto simp add: reset_encoders_def bindR_eq_Inr config_def)

lemma bridge_config:
  assumes "map_session_hidden_state_to_decoder_init_state m lo = Inr (r, m')"
  shows "config m' = config m"
proof -
  obtain state c where r: "r = (state, c)" by (cases r)
  from bridge_result [OF assms [unfolded r]] show ?thesis
    by (auto simp add: config_def)
qed

lemma decoding_config:
  "decoding X m di nb st c = Inr (r, m') \<Longrightarrow> config m' = config m"
  by (auto simp add: decoding_def bindR_eq_Inr config_def)

lemma forward_config:
  assumes "forward X m inputs nb = Inr (r, m')"
  shows "config m' = config m"
proof -
  from forward_Inr [OF assms] obtain ei di bs m1 lo e st cs m2 od pr where
    1: "reset_encoders X m bs = Inr m1" and
    2: "map_session_hidden_state_to_decoder_init_state (m1\<lparr>encoder := e\<rparr>) lo
          = Inr ((st, cs), m2)" and
    3: "decoding X m2 di nb st cs = Inr ((od, pr), m')"
    by blast
  have "config (m1\<lparr>encoder := e\<rparr>) = config m1" by (simp add: config_def)
  with reset_encoders_config [OF 1] bridge_config [OF 2] decoding_config [OF 3]
  show ?thesis by simp
qed

lemma run_calls_pr_force:
  "run_calls X m cs = Inr m' \<Longrightarrow> pr_force m' = pr_force m"
proof (induction cs arbitrary: m)
  case Nil
  then show ?case by simp
next
  case (Cons c cs)
  show ?case
  proof (cases c)
    case (Forward inputs nb)
    with Cons.prems obtain r m1 where f: "forward X m inputs nb = Inr (r, m1)"
      and rest: "run_calls X m1 cs = Inr m'"
      by (auto simp add: bindR_eq_Inr)
    from forward_config [OF f] have "pr_force m1 = pr_force m"
      by (simp add: config_def)
    with Cons.IH [OF rest] show ?thesis by simp
  next
    case (SetTraining b)
    with Cons.prems have "run_calls X (m\<lparr>training := b\<rparr>) cs = Inr m'" by simp
    from Cons.IH [OF this] show ?thesis by simp
  qed
qed

lemma HRED_init_pr_force: "HRED_init K a = Inr m \<Longrightarrow> pr_force m = 1 \<and> training m"
  by (auto simp add: HRED_init_def bindR_eq_Inr)

text \<open>The call of the decoder in \<open>decoding\<close>, written out: what the decoder is called
  with, and what becomes of its result.\<close>

lemma decoding_call:
  "decoding X m di num_beams st c =
     bindR (decoder_call X (decoding_decoder m) di (Some st) (decoding_nb m num_beams) c)
       (\<lambda>(outputs_dec, d).
     bindR (if num_beams = 0
            then bindR (size0 di) (\<lambda>n.
                 bindR (py_slice outputs_dec n) (\<lambda>p. Inr (Logits p)))
            else (case beam_outputs d of
                    None \<Rightarrow> Inl AttributeError
                  | Some b \<Rightarrow> Inr (Beams b))) (\<lambda>predictions.
     Inr ((outputs_dec, predictions), m\<lparr>decoder := d\<rparr>)))"
  by (simp add: decoding_def)

lemma decoding_Inr:
  assumes "decoding X m di num_beams st c = Inr ((od, pr), m')"
  shows "\<exists>d. decoder_call X (decoding_decoder m) di (Some st) (decoding_nb m num_beams) c
               = Inr (od, d) \<and> m' = m\<lparr>decoder := d\<rparr>"
  using assms by (auto simp add: decoding_def bindR_eq_Inr)

text \<open>Collaborators whose decoder is called with \<open>k\<close> beams whatever count it is
  given.\<close>

lemma decoding_at_count:
  assumes "decoding_nb m num_beams = k"
  shows "decoding (X\<lparr>decoder_call := \<lambda>D i h n c. decoder_call X D i h k c\<rparr>) m di num_beams st c
       = decoding X m di num_beams st c"
  using assms by (simp add: decoding_def)

lemma forward_at_count:
  assumes "training m" and "decoding_nb m num_beams = k"
  shows "forward (X\<lparr>decoder_call := \<lambda>D i h n c. decoder_call X D i h k c\<rparr>) m inputs num_beams
       = forward X m inputs num_beams"
proof -
  let ?X = "X\<lparr>decoder_call := \<lambda>D i h n c. decoder_call X D i h k c\<rparr>"
  have r: "reset_encoders ?X = reset_encoders X"
    by (intro ext) (simp add: reset_encoders_def)
  have k: "decoding_nb m' num_beams = k" if "config m' = config m" for m' :: "('a, 'b, 'c) hred"
    using that assms by (simp add: config_def decoding_nb_def)
  have d: "decoding ?X m2 di num_beams st cs = decoding X m2 di num_beams st cs"
    if "reset_encoders X m bs = Inr m1"
      and "map_session_hidden_state_to_decoder_init_state (m1\<lparr>encoder := e\<rparr>) lo
             = Inr ((st, cs), m2)"
    for bs m1 e lo st cs m2 di
  proof -
    have "config (m1\<lparr>encoder := e\<rparr>) = config m1" by (simp add: config_def)
    with reset_encoders_config [OF that(1)] bridge_config [OF that(2)]
    have "config m2 = config m" by simp
    from decoding_at_count [OF k [OF this]] show ?thesis .
  qed
  show ?thesis
    unfolding forward_def r
    apply simp
    apply (rule bindR_cong)
    apply (simp split: list.splits)
    apply (intro allI impI conjI)
    apply (rule bindR_cong)
    apply (rule bindR_cong)
    apply (clarsimp)
    apply (rule bindR_cong)
    apply (clarsimp simp add: d)
    done
qed

subsection \<open>Replication of the attention keys\<close>

lemma repeat_1k1_shape:
  "shape k = [sl, bs, d] \<Longrightarrow>
     \<exists>k'. repeat_1k1 k n = Inr k' \<and> shape k' = [sl, bs * n, d]"
  by (simp add: repeat_1k1_def Let_def)

lemma concat_replicate_slice:
  assumes "length b = n" and "q < K" and "r + d \<le> n"
  shows "take d (drop (q * n + r) (concat (replicate K b))) = take d (drop r b)"
  using assms(2)
proof (induction q arbitrary: K)
  case 0
  then obtain K' where K: "K = Suc K'" by (cases K) auto
  from assms(1,3) show ?case unfolding K by simp
next
  case (Suc q)
  then obtain K' where K: "K = Suc K'" and q: "q < K'" by (cases K) auto
  have "drop (Suc q * n + r) (concat (replicate K b)) = drop (q * n + r) (concat (replicate K' b))"
    unfolding K using assms(1) by simp
  with Suc.IH [OF q] show ?case by simp
qed

lemma length_concat_map_const:
  "(\<And>x. x \<in> set xs \<Longrightarrow> length (f x) = m) \<Longrightarrow> length (concat (map f xs)) = length xs * m"
  by (induction xs) simp_all

lemma concat_map_block:
  assumes "i < a" and "\<And>j. j < a \<Longrightarrow> length (f j) = m"
  shows "take m (drop (i * m) (concat (map f [0..<a]))) = f i"
proof -
  have split: "[0..<a] = [0..<i] @ i # [Suc i..<a]"
    using assms(1) by (metis less_imp_add_positive upt_add_eq_append upt_conv_Cons zero_le
        le_add1 less_add_same_cancel1 add_Suc_right upt_rec)
  have l: "length (concat (map f [0..<i])) = i * m"
    using length_concat_map_const [of "[0..<i]" f m] assms by simp
  have li: "length (f i) = m" using assms by simp
  show ?thesis unfolding split using l li by simp
qed

lemma block_length:
  assumes "length xs = a * n" and "i < a"
  shows "length (take n (drop (i * n) xs)) = n"
proof -
  from assms(2) obtain k where a: "a = Suc (i + k)" using less_iff_Suc_add by blast
  have "a * n = i * n + (n + k * n)" unfolding a by (simp add: algebra_simps)
  with assms(1) show ?thesis by simp
qed

lemma repeat_1k1_rows:
  assumes "shape k = [sl, bs, d]" and "well_shaped k" and "repeat_1k1 k n = Inr k'"
    and "i < sl" and "j < bs * n"
  shows "select0 (select0 k' i) j = select0 (select0 k i) (j mod bs)"
proof -
  define blk where "blk i = take (bs * d) (drop (i * (bs * d)) (elems k))" for i
  have len: "length (elems k) = sl * (bs * d)"
    using assms(1,2) by (simp add: well_shaped_def)
  have bl: "length (blk i) = bs * d" if "i < sl" for i
    unfolding blk_def using block_length [OF len that] .
  have k': "k' = \<lparr>shape = [sl, bs * n, d],
                   elems = concat (map (\<lambda>i. concat (replicate n (blk i))) [0..<sl])\<rparr>"
    using assms(1,3) by (simp add: repeat_1k1_def Let_def blk_def)
  have rl: "length (concat (replicate n (blk i))) = bs * n * d" if "i < sl" for i
    using bl [OF that] by (simp add: length_concat sum_list_replicate algebra_simps)
  have row: "take (bs * n * d) (drop (i * (bs * n * d)) (elems k')) = concat (replicate n (blk i))"
    unfolding k' using concat_map_block [OF assms(4), of "\<lambda>i. concat (replicate n (blk i))" "bs * n * d"] rl
    by simp
  have bs: "0 < bs" using assms(5) by (cases bs) auto
  define q where "q = j div bs"
  define r where "r = j mod bs"
  have j: "j = q * bs + r" by (simp add: q_def r_def)
  have qn: "q < n" using assms(5) unfolding q_def
    by (simp add: less_mult_imp_div_less mult.commute)
  have rb: "r < bs" unfolding r_def using bs by simp
  then have rd: "r * d + d \<le> bs * d"
    by (metis Suc_leI mult_Suc mult_le_mono1 add.commute)
  have jd: "j * d = q * (bs * d) + r * d" unfolding j by (simp add: algebra_simps)
  have "take d (drop (j * d) (concat (replicate n (blk i)))) = take d (drop (r * d) (blk i))"
    unfolding jd using concat_replicate_slice [OF bl [OF assms(4)] qn rd] .
  then show ?thesis
    using row assms(1) unfolding k'
    by (simp add: select0_def Let_def blk_def r_def)
qed

text \<open>
  C6. Entering beam search with K beams and stored keys of \<open>[sl, bs, d]\<close>,
  \<open>_beam_forward\<close> replicates the keys once, to \<open>[sl, bs * K, d]\<close>, and then hands
  over to the stepping skeleton of the base class, which gets the decoder with the
  replicated keys. The skeleton is not among the sources; when it leaves the keys as
  they are, they are the replicated keys after the call as well. Replicated means:
  for every source step \<open>i\<close>, the key of item \<open>j\<close> of the enlarged batch is the
  stored key of item \<open>j mod bs\<close>.
\<close>

theorem beam_forward_replicates_keys_once:
  assumes "keys (projection_layer D) = Some k" and "shape k = [sl, bs, d]" and "0 < K"
  shows "\<exists>k'. repeat_1k1 k (nat K) = Inr k' \<and> shape k' = [sl, bs * nat K, d]
      \<and> AttentionDecoder_beam_forward sb D inputs hid K c
          = sb (D\<lparr>projection_layer := (projection_layer D)\<lparr>keys := Some k'\<rparr>\<rparr>) inputs hid K
      \<and> ((\<forall>D1 out D2. sb D1 inputs hid K = Inr (out, D2) \<longrightarrow>
              keys (projection_layer D2) = keys (projection_layer D1)) \<longrightarrow>
          (\<forall>out D2. AttentionDecoder_beam_forward sb D inputs hid K c = Inr (out, D2) \<longrightarrow>
              keys (projection_layer D2) = Some k'))
      \<and> (well_shaped k \<longrightarrow>
          (\<forall>i j. i < sl \<longrightarrow> j < bs * nat K \<longrightarrow>
             select0 (select0 k' i) j = select0 (select0 k i) (j mod bs)))"
proof -
  from repeat_1k1_shape [OF assms(2)] obtain k' where
    r: "repeat_1k1 k (nat K) = Inr k'" and s: "shape k' = [sl, bs * nat K, d]" by blast
  have rows: "select0 (select0 k' i) j = select0 (select0 k i) (j mod bs)"
    if "well_shaped k" "i < sl" "j < bs * nat K" for i j
    using repeat_1k1_rows [OF assms(2) that(1) r that(2,3)] .
  have e: "AttentionDecoder_beam_forward sb D inputs hid K c
          = sb (D\<lparr>projection_layer := (projection_layer D)\<lparr>keys := Some k'\<rparr>\<rparr>) inputs hid K"
    using assms(1,3) r by (simp add: AttentionDecoder_beam_forward_def)
  show ?thesis
  proof (intro exI [of _ k'] conjI r s e impI allI)
    fix out D2
    assume f: "\<forall>D1 out D2. sb D1 inputs hid K = Inr (out, D2) \<longrightarrow>
              keys (projection_layer D2) = keys (projection_layer D1)"
      and "AttentionDecoder_beam_forward sb D inputs hid K c = Inr (out, D2)"
    then have "sb (D\<lparr>projection_layer := (projection_layer D)\<lparr>keys := Some k'\<rparr>\<rparr>) inputs hid K
        = Inr (out, D2)" using e by simp
    with f have "keys (projection_layer D2)
        = keys (projection_layer (D\<lparr>projection_layer := (projection_layer D)\<lparr>keys := Some k'\<rparr>\<rparr>))"
      by blast
    then show "keys (projection_layer D2) = Some k'" by simp
  next
    fix i j
    assume "well_shaped k" "i < sl" "j < bs * nat K"
    then show "select0 (select0 k' i) j = select0 (select0 k i) (j mod bs)" by (rule rows)
  qed
qed

theorem beam_forward_replicates_keys_once_witness:
  "keys (projection_layer keyed_decoder) = Some four_keys \<and> shape four_keys = [2, 2, 1]
   \<and> (\<exists>k'. repeat_1k1 four_keys (nat 3) = Inr k' \<and> shape k' = [2, 2 * nat 3, 1]
        \<and> AttentionDecoder_beam_forward echo_keys keyed_decoder two_steps None 3
             (None :: unit option)
          = Inr (Tens k',
               keyed_decoder\<lparr>projection_layer :=
                 (projection_layer keyed_decoder)\<lparr>keys := Some k'\<rparr>\<rparr>))
   \<and> repeat_1k1 four_keys 3
       = Inr \<lparr>shape = [2, 6, 1], elems = [1, 2, 1, 2, 1, 2, 3, 4, 3, 4, 3, 4]\<rparr>"
proof -
  have k: "keys (projection_layer keyed_decoder) = Some four_keys"
    by (simp add: keyed_decoder_def)
  have s: "shape four_keys = [2, 2, 1]" by (simp add: four_keys_def)
  have v: "repeat_1k1 four_keys 3
       = Inr \<lparr>shape = [2, 6, 1], elems = [1, 2, 1, 2, 1, 2, 3, 4, 3, 4, 3, 4]\<rparr>"
    by code_simp
  from beam_forward_replicates_keys_once
    [OF k s, of 3 echo_keys two_steps None "None :: unit option"]
  obtain k' where "repeat_1k1 four_keys (nat 3) = Inr k'" "shape k' = [2, 2 * nat 3, 1]"
    "AttentionDecoder_beam_forward echo_keys keyed_decoder two_steps None 3
       (None :: unit option)
     = echo_keys (keyed_decoder\<lparr>projection_layer :=
         (projection_layer keyed_decoder)\<lparr>keys := Some k'\<rparr>\<rparr>) two_steps None 3"
    by auto
  then show ?thesis using k s v by (auto simp add: echo_keys_def)
qed

subsection \<open>State left over from earlier calls\<close>

text \<open>
  C9, the claim as stated fails. Two runs of \<open>forward\<close> in training mode with
  \<open>pr_force = 1\<close> and \<open>num_beams = 3\<close> on the same inputs, on models that differ in
  the \<open>beam_outputs\<close> an earlier call left in the decoder. The decoder is reset and
  called with 0 beams, which does not write \<open>beam_outputs\<close>; the predictions are
  read from it, and each run returns what was left over.
\<close>

theorem stale_beam_outputs_returned:
  "returned (forward sum_collaborators (sum_model (Some \<lparr>shape = [1, 1], elems = [1]\<rparr>))
      [one_utterance, two_steps] 3)
     = Inr (Beams \<lparr>shape = [1, 1], elems = [1]\<rparr>,
            [\<lparr>shape = [1, 1], elems = [5]\<rparr>, \<lparr>shape = [1, 1], elems = [5]\<rparr>])
   \<and> returned (forward sum_collaborators (sum_model (Some \<lparr>shape = [1, 1], elems = [2]\<rparr>))
      [one_utterance, two_steps] 3)
     = Inr (Beams \<lparr>shape = [1, 1], elems = [2]\<rparr>,
            [\<lparr>shape = [1, 1], elems = [5]\<rparr>, \<lparr>shape = [1, 1], elems = [5]\<rparr>])"
  by code_simp

lemma reset_encoders_erases:
  assumes "encoder_reset X e2 bs = encoder_reset X (encoder m) bs"
    and "decoder_reset X d2 bs = decoder_reset X (decoder m) bs"
  shows "reset_encoders X (m\<lparr>encoder := e2, decoder := d2\<rparr>) bs = reset_encoders X m bs"
  using assms by (simp add: reset_encoders_def)

text \<open>
  C9 as amended. \<open>forward\<close> resets the encoder and the decoder before it runs either,
  and uses nothing of their earlier state but through the reset: for two states of
  the encoder and of the decoder that the reset brings to the same state, the two runs
  of \<open>forward\<close> on the same model and inputs return the same and leave the same
  model.
\<close>

theorem forward_after_reset_forgets_leftover_state:
  assumes "\<forall>bs. encoder_reset X e2 bs = encoder_reset X (encoder m) bs"
    and "\<forall>bs. decoder_reset X d2 bs = decoder_reset X (decoder m) bs"
  shows "forward X (m\<lparr>encoder := e2, decoder := d2\<rparr>) inputs num_beams
           = forward X m inputs num_beams"
proof -
  have r: "reset_encoders X (m\<lparr>encoder := e2, decoder := d2\<rparr>) bs = reset_encoders X m bs"
    for bs using assms by (simp add: reset_encoders_erases)
  show ?thesis
  proof (cases "assert_dims_inputs X inputs")
    case (Inl e)
    then show ?thesis by (simp add: forward_def)
  next
    case (Inr checked)
    then show ?thesis
      by (simp add: forward_def r split: list.splits)
  qed
qed

theorem forward_after_reset_forgets_leftover_state_witness:
  "forward sum_collaborators
     ((sum_model None)\<lparr>encoder := (), decoder := sum_decoder\<lparr>hidden := [Tens (scalar3 42)]\<rparr>\<rparr>)
     [one_utterance, two_steps] 0
   = forward sum_collaborators (sum_model None) [one_utterance, two_steps] 0
   \<and> returned (forward sum_collaborators (sum_model None) [one_utterance, two_steps] 0)
     = Inr (Logits (Tens \<lparr>shape = [2, 1, 1], elems = [5, 5]\<rparr>),
            [\<lparr>shape = [1, 1], elems = [5]\<rparr>, \<lparr>shape = [1, 1], elems = [5]\<rparr>])"
proof -
  have 1: "\<forall>bs. encoder_reset sum_collaborators () bs
      = encoder_reset sum_collaborators (encoder (sum_model None)) bs"
    by (simp add: sum_collaborators_def)
  have 2: "\<forall>bs. decoder_reset sum_collaborators (sum_decoder\<lparr>hidden := [Tens (scalar3 42)]\<rparr>) bs
      = decoder_reset sum_collaborators (decoder (sum_model None)) bs"
    by (simp add: sum_collaborators_def sum_model_def Decoder_reset_def sum_decoder_def)
  have 3: "returned (forward sum_collaborators (sum_model None) [one_utterance, two_steps] 0)
     = Inr (Logits (Tens \<lparr>shape = [2, 1, 1], elems = [5, 5]\<rparr>),
            [\<lparr>shape = [1, 1], elems = [5]\<rparr>, \<lparr>shape = [1, 1], elems = [5]\<rparr>])"
    by code_simp
  from forward_after_reset_forgets_leftover_state [OF 1 2] 3 show ?thesis by simp
qed

subsection \<open>A fresh model\<close>

text \<open>
  C10. A model as the constructor returns it has \<open>pr_force = 1\<close>. Calls of
  \<open>forward\<close> and switches of the mode leave it at 1. In training mode \<open>decoding\<close>
  then calls the decoder with \<open>pr_force = 1\<close> copied into it and \<open>num_beams = 0\<close>,
  whatever count the caller passes: the call is written out below. So does every call
  of \<open>forward\<close>: it goes as it goes with a decoder that is given 0 beams whatever
  count it is called with, and when it returns, it returns from a call of the decoder
  with 0 beams on a model in training mode with \<open>pr_force = 1\<close>.
\<close>

theorem fresh_model_is_teacher_forced:
  assumes "HRED_init K a = Inr m0" and "run_calls X m0 cs = Inr m" and "training m"
  shows "pr_force m0 = 1 \<and> pr_force m = 1 \<and> decoding_nb m num_beams = 0
     \<and> decoding X m di num_beams st c =
         bindR (decoder_call X ((decoder m)\<lparr>decoder_pr_force := 1\<rparr>) di (Some st) 0 c)
           (\<lambda>(outputs_dec, d).
         bindR (if num_beams = 0
                then bindR (size0 di) (\<lambda>n.
                     bindR (py_slice outputs_dec n) (\<lambda>p. Inr (Logits p)))
                else (case beam_outputs d of
                        None \<Rightarrow> Inl AttributeError
                      | Some b \<Rightarrow> Inr (Beams b))) (\<lambda>predictions.
         Inr ((outputs_dec, predictions), m\<lparr>decoder := d\<rparr>)))
     \<and> forward (X\<lparr>decoder_call := \<lambda>D i h n c. decoder_call X D i h 0 c\<rparr>) m inputs num_beams
         = forward X m inputs num_beams
     \<and> (\<forall>r m'. forward X m inputs num_beams = Inr (r, m') \<longrightarrow>
          (\<exists>m2 di st c od d. training m2 \<and> pr_force m2 = 1 \<and>
             decoder_call X ((decoder m2)\<lparr>decoder_pr_force := 1\<rparr>) di (Some st) 0 c
               = Inr (od, d) \<and>
             m' = m2\<lparr>decoder := d\<rparr>))"
proof -
  from HRED_init_pr_force [OF assms(1)] have p0: "pr_force m0 = 1" by simp
  with run_calls_pr_force [OF assms(2)] have p: "pr_force m = 1" by simp
  from p assms(3) have n: "decoding_nb m num_beams = 0" by (simp add: decoding_nb_def)
  from p assms(3) have dd: "decoding_decoder m = (decoder m)\<lparr>decoder_pr_force := 1\<rparr>"
    by (simp add: decoding_decoder_def)
  have call: "decoding X m di num_beams st c =
         bindR (decoder_call X ((decoder m)\<lparr>decoder_pr_force := 1\<rparr>) di (Some st) 0 c)
           (\<lambda>(outputs_dec, d).
         bindR (if num_beams = 0
                then bindR (size0 di) (\<lambda>n.
                     bindR (py_slice outputs_dec n) (\<lambda>p. Inr (Logits p)))
                else (case beam_outputs d of
                        None \<Rightarrow> Inl AttributeError
                      | Some b \<Rightarrow> Inr (Beams b))) (\<lambda>predictions.
         Inr ((outputs_dec, predictions), m\<lparr>decoder := d\<rparr>)))"
    unfolding decoding_call n dd ..
  have fw: "forward (X\<lparr>decoder_call := \<lambda>D i h n c. decoder_call X D i h 0 c\<rparr>) m inputs num_beams
         = forward X m inputs num_beams"
    by (rule forward_at_count [OF assms(3) n])
  have ret: "\<exists>m2 di st c od d. training m2 \<and> pr_force m2 = 1 \<and>
             decoder_call X ((decoder m2)\<lparr>decoder_pr_force := 1\<rparr>) di (Some st) 0 c
               = Inr (od, d) \<and>
             m' = m2\<lparr>decoder := d\<rparr>"
    if "forward X m inputs num_beams = Inr (r, m')" for r m'
  proof -
    from forward_Inr [OF that] obtain di bs m1 lo e st cs m2 od pr where
      1: "reset_encoders X m bs = Inr m1" and
      2: "map_session_hidden_state_to_decoder_init_state (m1\<lparr>encoder := e\<rparr>) lo
            = Inr ((st, cs), m2)" and
      3: "decoding X m2 di num_beams st cs = Inr ((od, pr), m')"
      by blast
    have "config (m1\<lparr>encoder := e\<rparr>) = config m1" by (simp add: config_def)
    with reset_encoders_config [OF 1] bridge_config [OF 2]
    have "config m2 = config m" by simp
    with p assms(3) have t2: "training m2" and p2: "pr_force m2 = 1"
      by (simp_all add: config_def)
    from decoding_Inr [OF 3] obtain d where
      "decoder_call X (decoding_decoder m2) di (Some st) (decoding_nb m2 num_beams) cs
         = Inr (od, d)" and m': "m' = m2\<lparr>decoder := d\<rparr>" by blast
    with t2 p2 have "decoder_call X ((decoder m2)\<lparr>decoder_pr_force := 1\<rparr>) di (Some st) 0 cs
         = Inr (od, d)"
      by (simp add: decoding_decoder_def decoding_nb_def)
    with t2 p2 m' show ?thesis by blast
  qed
  from p0 p n call fw ret show ?thesis by blast
qed

theorem fresh_model_is_teacher_forced_witness:
  "\<exists>m0 m. HRED_init gru_constructors demo_args = Inr m0
     \<and> run_calls sum_collaborators m0
         [Forward [one_utterance, two_steps] 0, SetTraining False,
          Forward [one_utterance, two_steps] 0, SetTraining True] = Inr m
     \<and> training m \<and> pr_force m0 = 1 \<and> pr_force m = 1 \<and> decoding_nb m 4 = 0
     \<and> forward (sum_collaborators\<lparr>decoder_call :=
                   \<lambda>D i h n c. decoder_call sum_collaborators D i h 0 c\<rparr>) m
          [one_utterance, two_steps] 4
        = forward sum_collaborators m [one_utterance, two_steps] 4"
proof -
  let ?cs = "[Forward [one_utterance, two_steps] 0, SetTraining False,
          Forward [one_utterance, two_steps] 0, SetTraining True]"
  have "\<not> isl (bindR (HRED_init gru_constructors demo_args)
                 (\<lambda>m0. run_calls sum_collaborators m0 ?cs))"
    by code_simp
  then obtain m0 m where i: "HRED_init gru_constructors demo_args = Inr m0"
    and r: "run_calls sum_collaborators m0 ?cs = Inr m"
    by (cases "HRED_init gru_constructors demo_args";
        cases "run_calls sum_collaborators (projr (HRED_init gru_constructors demo_args)) ?cs")
       auto
  have "bindR (HRED_init gru_constructors demo_args)
          (\<lambda>m0. bindR (run_calls sum_collaborators m0 ?cs) (\<lambda>m. Inr (training m))) = Inr True"
    by code_simp
  with i r have t: "training m" by simp
  from fresh_model_is_teacher_forced
    [OF i r t, of 4 two_steps "[]" None "[one_utterance, two_steps]"] i r t
  show ?thesis by blast
qed

subsection \<open>The shape of teacher-forced predictions\<close>


lemma rnn_step_loop_ok:
  assumes "layers_contract bs hs i zs ws" and "shape x = [1, bs, hd ws]"
  shows "\<exists>nh outs'. rnn_step_loop nl (Some hs) i zs x nh0 outs = Inr (nh, outs') \<and>
           (zs \<noteq> [] \<longrightarrow> outs' \<noteq> [] \<and> shape (last outs') = [1, bs, last ws])"
  using assms
proof (induction zs arbitrary: i x nh0 outs ws)
  case Nil
  then show ?case by simp
next
  case (Cons z zs)
  obtain rnn dropout where z: "z = (rnn, dropout)" by (cases z)
  from Cons.prems(1) z obtain w w' rest where ws: "ws = w # w' # rest"
    by (cases ws; cases "tl ws") auto
  from Cons.prems(1) z ws have i: "i < length hs"
    and lr: "\<forall>x. shape x = [1, bs, w] \<longrightarrow>
             (\<exists>out h'. rnn x (hs ! i) = Inr (out, h') \<and> shape out = [1, bs, w'])"
    and ld: "\<forall>x. shape x = [1, bs, w'] \<longrightarrow>
             (\<exists>y. dropout x = Inr y \<and> shape y = [1, bs, w'])"
    and rest: "layers_contract bs hs (Suc i) zs (w' # rest)"
    by simp_all
  from Cons.prems(2) ws have "shape x = [1, bs, w]" by simp
  with lr obtain out h' where r: "rnn x (hs ! i) = Inr (out, h')"
    and so: "shape out = [1, bs, w']" by blast
  from ld so obtain y where d: "dropout out = Inr y" and sy: "shape y = [1, bs, w']" by blast
  define out' where "out' = (if int i \<noteq> nl - 1 then y else out)"
  have so': "shape out' = [1, bs, hd (w' # rest)]" using so sy by (simp add: out'_def)
  have step: "rnn_step_loop nl (Some hs) i (z # zs) x nh0 outs
      = rnn_step_loop nl (Some hs) (Suc i) zs out' (nh0 @ [h']) (outs @ [out'])"
    using z i r d by (simp add: out'_def)
  show ?case
  proof (cases "zs = []")
    case True
    with rest have "rest = []" by simp
    then show ?thesis unfolding step using True so' ws by simp
  next
    case False
    from Cons.IH [OF rest so', of "nh0 @ [h']" "outs @ [out']"] False ws
    show ?thesis unfolding step by auto
  qed
qed

lemma contract_frame:
  "collaborator_contract (D\<lparr>hidden := nh\<rparr>) bs V hs ws = collaborator_contract D bs V hs ws"
  "collaborator_contract (D\<lparr>projection_layer := P\<rparr>) bs V hs ws
     = collaborator_contract D bs V hs ws"
  "collaborator_contract (D\<lparr>decoder_pr_force := pf\<rparr>) bs V hs ws
     = collaborator_contract D bs V hs ws"
  by (simp_all add: collaborator_contract_def)

lemma rnn_step_ok:
  assumes "collaborator_contract D bs V hs ws" and "shape x = [1, bs, emb_size D * 2]"
  shows "\<exists>outs nh. AttentionDecoder_rnn_step D x (Some hs) = Inr (outs, D\<lparr>hidden := nh\<rparr>) \<and>
           outs \<noteq> [] \<and> shape (last outs) = [1, bs, emb_size D]"
proof -
  let ?zs = "zip (layers D) (dropouths D)"
  from assms(1) have la: "layers_contract bs hs 0 ?zs ws" and ne: "?zs \<noteq> []"
    and h: "hd ws = emb_size D * 2" and l: "last ws = emb_size D"
    unfolding collaborator_contract_def by blast+
  from assms(2) h have "shape x = [1, bs, hd ws]" by simp
  from rnn_step_loop_ok [OF la this, of "nlayers D" "[]" "[]"] ne l
  obtain nh outs where
    "rnn_step_loop (nlayers D) (Some hs) 0 ?zs x [] [] = Inr (nh, outs)"
    "outs \<noteq> []" "shape (last outs) = [1, bs, emb_size D]" by auto
  then show ?thesis by (auto simp add: AttentionDecoder_rnn_step_def)
qed

lemma train_step_input_ok:
  assumes "collaborator_contract D bs V hs ws" and "shape s = [bs, emb_size D]"
  shows "\<exists>x. train_step_input D bs s = Inr x \<and> shape x = [1, bs, emb_size D * 2]"
proof -
  from assms obtain att where a: "get_attention_output D (projection_layer D) s = Inr att"
    and sa: "shape att = [bs, emb_size D]"
    unfolding collaborator_contract_def by blast
  show ?thesis
    using a sa assms(2)
    by (simp add: train_step_input_def cat_last_def Let_def assert_dims_def unsqueeze0_def)
qed

lemma index0_shape:
  "shape t = [1, bs, e] \<Longrightarrow> \<exists>r. index0 t 0 = Inr r \<and> shape r = [bs, e]"
  by (simp add: index0_def select0_def)

lemma contract_projection:
  assumes "collaborator_contract D bs V hs ws" and "shape r = [bs, emb_size D]"
  shows "\<exists>l P'. projection_call D P r = Inr (l, P') \<and> shape l = [1, bs, V]"
proof -
  from assms(1) have "\<forall>P r. shape r = [bs, emb_size D] \<longrightarrow>
         (\<exists>l P'. projection_call D P r = Inr (l, P') \<and> shape l = [1, bs, V])"
    unfolding collaborator_contract_def by (elim conjE)
  with assms(2) show ?thesis by blast
qed

lemma train_loop_step:
  assumes "train_step_input D bs s = Inr x"
    and "AttentionDecoder_rnn_step D x hid = Inr (outs, D1)"
    and "outs \<noteq> []"
    and "shape (last outs) = [1, bs, emb_size D1]"
    and "index0 (last outs) 0 = Inr r0"
    and "projection_call D1 (projection_layer D1) r0 = Inr (l, P)"
  shows "train_loop bs hid D (s # steps) acc
      = train_loop bs hid (D1\<lparr>projection_layer := P\<rparr>) steps (acc @ [l])"
proof -
  have 3: "py_last outs = Inr (last outs)" using assms(3) by (simp add: py_last_def)
  have 4: "assert_dims (last outs) [Some 1, Some bs, Some (emb_size D1)] = Inr (last outs)"
    using assms(4) by (simp add: assert_dims_def)
  show ?thesis
    by (simp only: train_loop.simps assms(1,2,5,6) 3 4 bindR_simps prod.case)
qed

lemma train_loop_ok:
  assumes "collaborator_contract D bs V hs ws"
    and "list_all (\<lambda>s. shape s = [bs, emb_size D]) steps"
    and "list_all (\<lambda>l. shape l = [1, bs, V]) acc"
  shows "\<exists>outs D'. train_loop bs (Some hs) D steps acc = Inr (outs, D') \<and>
           length outs = length acc + length steps \<and>
           list_all (\<lambda>l. shape l = [1, bs, V]) outs"
  using assms
proof (induction steps arbitrary: D acc)
  case Nil
  then show ?case by simp
next
  case (Cons s steps)
  from Cons.prems(2) have ss: "shape s = [bs, emb_size D]"
    and rest: "list_all (\<lambda>s. shape s = [bs, emb_size D]) steps" by simp_all
  from train_step_input_ok [OF Cons.prems(1) ss] obtain x where
    1: "train_step_input D bs s = Inr x" and sx: "shape x = [1, bs, emb_size D * 2]" by blast
  from rnn_step_ok [OF Cons.prems(1) sx] obtain outs nh where
    2: "AttentionDecoder_rnn_step D x (Some hs) = Inr (outs, D\<lparr>hidden := nh\<rparr>)" and
    ne: "outs \<noteq> []" and so: "shape (last outs) = [1, bs, emb_size D]" by blast
  define D1 where "D1 = D\<lparr>hidden := nh\<rparr>"
  have c1: "collaborator_contract D1 bs V hs ws"
    using Cons.prems(1) by (simp add: D1_def contract_frame)
  have e1: "emb_size D1 = emb_size D" by (simp add: D1_def)
  from so e1 have so1: "shape (last outs) = [1, bs, emb_size D1]" by simp
  from index0_shape [OF so1] obtain r0 where 5: "index0 (last outs) 0 = Inr r0"
    and sr: "shape r0 = [bs, emb_size D1]" by blast
  from contract_projection [OF c1 sr, of "projection_layer D1"] obtain l P where
    6: "projection_call D1 (projection_layer D1) r0 = Inr (l, P)" and
    sl: "shape l = [1, bs, V]" by blast
  define D2 where "D2 = D1\<lparr>projection_layer := P\<rparr>"
  have step: "train_loop bs (Some hs) D (s # steps) acc
      = train_loop bs (Some hs) D2 steps (acc @ [l])"
    unfolding D2_def using train_loop_step [OF 1 2 [folded D1_def] ne so1 5 6] .
  have c2: "collaborator_contract D2 bs V hs ws" using c1 by (simp add: D2_def contract_frame)
  have r2: "list_all (\<lambda>s. shape s = [bs, emb_size D2]) steps"
    using rest e1 by (simp add: D2_def)
  have a2: "list_all (\<lambda>l. shape l = [1, bs, V]) (acc @ [l])" using Cons.prems(3) sl by simp
  from Cons.IH [OF c2 r2 a2] obtain outs' D' where
    "train_loop bs (Some hs) D2 steps (acc @ [l]) = Inr (outs', D')"
    "length outs' = length (acc @ [l]) + length steps"
    "list_all (\<lambda>l. shape l = [1, bs, V]) outs'" by blast
  then show ?case unfolding step by simp
qed

lemma cat0_ok:
  assumes "ts \<noteq> []" and "list_all (\<lambda>l. shape l = [1, bs, V]) ts"
  shows "\<exists>out. cat0 ts = Inr out \<and> shape out = [length ts, bs, V]"
proof -
  from assms(2) have s: "sum_list (map (\<lambda>u. hd (shape u)) ts) = length ts"
    by (induction ts) simp_all
  from assms obtain t us where ts: "ts = t # us" by (cases ts) auto
  with assms(2) have st: "shape t = [1, bs, V]"
    and rest: "list_all (\<lambda>u. shape u \<noteq> [] \<and> tl (shape u) = [bs, V]) us"
    by (simp_all add: list_all_iff)
  show ?thesis using s st rest unfolding ts by (simp add: cat0_def)
qed

lemma unbind0_ok:
  assumes "shape emb = [T, bs, e]"
  shows "\<exists>steps. unbind0 emb = Inr steps \<and> length steps = T \<and>
           list_all (\<lambda>s. shape s = [bs, e]) steps"
  using assms by (simp add: unbind0_def select0_def list_all_iff Let_def)

lemma train_forward_ok:
  assumes "shape inputs = [T, bs]" and "0 < T"
    and "embedding_layer D inputs = Inr emb" and "shape emb = [T, bs, emb_size D]"
    and "collaborator_contract D bs V hs ws"
  shows "\<exists>out D'. AttentionDecoder_train_forward D inputs (Some hs) c = Inr (out, D') \<and>
           shape out = [T, bs, V]"
proof -
  from unbind0_ok [OF assms(4)] obtain steps where
    u: "unbind0 emb = Inr steps" and n: "length steps = T" and
    a: "list_all (\<lambda>s. shape s = [bs, emb_size D]) steps" by blast
  from train_loop_ok [OF assms(5) a, of "[]"] obtain outs D' where
    l: "train_loop bs (Some hs) D steps [] = Inr (outs, D')" and
    lo: "length outs = length steps" and ao: "list_all (\<lambda>l. shape l = [1, bs, V]) outs"
    by auto
  from lo n assms(2) have "outs \<noteq> []" by auto
  from cat0_ok [OF this ao] obtain out where
    c: "cat0 outs = Inr out" and so: "shape out = [length outs, bs, V]" by blast
  show ?thesis using assms(1,3) u l c so lo n
    by (simp add: AttentionDecoder_train_forward_def)
qed

lemma train_forward_empty:
  assumes "shape inputs = [0, bs]" and "embedding_layer D inputs = Inr emb"
    and "shape emb = [0, bs, e]"
  shows "AttentionDecoder_train_forward D inputs hid c = Inl RuntimeError"
  using assms
  by (simp add: AttentionDecoder_train_forward_def unbind0_def cat0_def)



subsection \<open>The constraint vector\<close>

lemma collect_Inr:
  "collect f xs = Inr ys \<Longrightarrow>
     length ys = length xs \<and> (\<forall>i<length xs. f (xs ! i) = Inr (ys ! i))"
proof (induction xs arbitrary: ys)
  case Nil
  then show ?case by simp
next
  case (Cons x xs)
  from Cons.prems obtain y zs where y: "f x = Inr y" and zs: "collect f xs = Inr zs"
    and ys: "ys = y # zs"
    by (auto simp add: bindR_eq_Inr)
  from Cons.IH [OF zs] y show ?case unfolding ys
    by (auto simp add: nth_Cons split: nat.splits)
qed

lemma Decoder_run_length:
  "Decoder_run D xs acc = Inr (fo, D') \<Longrightarrow> length fo = length acc + length xs"
proof (induction xs arbitrary: D acc)
  case Nil
  then show ?case by simp
next
  case (Cons x xs)
  from Cons.prems obtain l D1 where "Decoder_run D1 xs (acc @ [l]) = Inr (fo, D')"
    by (auto simp add: bindR_eq_Inr)
  from Cons.IH [OF this] show ?case by simp
qed

lemma Decoder_step_inputs_Inr:
  assumes "Decoder_step_inputs D inputs cs = Inr xs"
  shows "\<exists>emb. embedding_layer D inputs = Inr emb \<and> length xs = hd (shape emb) \<and>
           (\<forall>t<length xs. Decoder_step_input cs (select0 emb t) = Inr (xs ! t))"
proof -
  from assms obtain emb steps where e: "embedding_layer D inputs = Inr emb"
    and u: "unbind0 emb = Inr steps"
    and c: "collect (Decoder_step_input cs) steps = Inr xs"
    by (auto simp add: Decoder_step_inputs_def bindR_eq_Inr)
  from unbind0_Inr [OF u] have s: "steps = map (select0 emb) [0..<hd (shape emb)]" .
  from collect_Inr [OF c] s e show ?thesis by simp
qed

lemma Decoder_train_forward_Inr:
  assumes "Decoder_train_forward D inputs hid cs = Inr (od, D')"
  shows "\<exists>xs fo out. Decoder_step_inputs D inputs cs = Inr xs \<and>
           Decoder_run (Decoder_start D hid) xs [] = Inr (fo, D') \<and>
           cat0 fo = Inr out \<and> od = Tens out"
  using assms
  by (auto simp add: Decoder_train_forward_def bindR_eq_Inr split: list.splits)

lemma cat_last_width:
  "cat_last a b = Inr r \<Longrightarrow> last (shape r) = last (shape a) + last (shape b)"
  by (auto simp add: cat_last_def Let_def split: if_splits)

lemma bridge_constraint:
  assumes "map_session_hidden_state_to_decoder_init_state m lo = Inr ((st, cs), m')"
    and "session_constraint m"
  shows "(cell_type m = ''gru'' \<and> cs = Some lo) \<or>
         (cell_type m \<noteq> ''gru'' \<and> (\<exists>v. py_getitem lo 0 = Inr v \<and> cs = Some (Tens v)))"
  using assms
  by (auto simp add: map_session_hidden_state_to_decoder_init_state_def Let_def bindR_eq_Inr
      split: if_splits)



subsection \<open>Scheduled sampling with \<open>pr_force = 0\<close>\<close>

lemma sampled_loop_steps:
  "sampled_loop pf step best D prev xs = Inr (trace, D') \<Longrightarrow>
     length trace = length xs \<and>
     (\<exists>Ds. length Ds = Suc (length trace) \<and> hd Ds = D \<and> last Ds = D' \<and>
        (\<forall>t<length trace. step (Ds ! t) (fst (trace ! t)) = Inr (snd (trace ! t), Ds ! Suc t)))"
proof (induction xs arbitrary: D prev trace)
  case Nil
  then have "trace = []" and "D' = D" by simp_all
  then have "length [D] = Suc (length trace) \<and> hd [D] = D \<and> last [D] = D' \<and>
        (\<forall>t<length trace. step ([D] ! t) (fst (trace ! t)) = Inr (snd (trace ! t), [D] ! Suc t))"
    by simp
  with \<open>trace = []\<close> show ?case by (intro conjI exI [of _ "[D]"]) simp_all
next
  case (Cons x xs)
  obtain truth draw where x: "x = (truth, draw)" by (cases x)
  define tok where "tok = (case prev of None \<Rightarrow> truth | Some p \<Rightarrow> if draw < pf then truth else p)"
  from Cons.prems x obtain logits D1 p trace' where
    s: "step D tok = Inr (logits, D1)" and
    rest: "sampled_loop pf step best D1 (Some p) xs = Inr (trace', D')" and
    tr: "trace = (tok, logits) # trace'"
    by (auto simp add: bindR_eq_Inr tok_def Let_def)
  from Cons.IH [OF rest] obtain Ds where l: "length trace' = length xs" and
    ld: "length Ds = Suc (length trace')" and h: "hd Ds = D1" and la: "last Ds = D'" and
    st: "\<forall>t<length trace'. step (Ds ! t) (fst (trace' ! t)) = Inr (snd (trace' ! t), Ds ! Suc t)"
    by blast
  from ld have ne: "Ds \<noteq> []" by auto
  with h have h0: "Ds ! 0 = D1" by (simp add: hd_conv_nth)
  have "\<forall>t<length trace. step ((D # Ds) ! t) (fst (trace ! t))
          = Inr (snd (trace ! t), (D # Ds) ! Suc t)"
  proof (intro allI impI)
    fix t assume t: "t < length trace"
    show "step ((D # Ds) ! t) (fst (trace ! t)) = Inr (snd (trace ! t), (D # Ds) ! Suc t)"
    proof (cases t)
      case 0
      with s h0 tr show ?thesis by simp
    next
      case (Suc t')
      with t tr st show ?thesis by simp
    qed
  qed
  moreover have "length (D # Ds) = Suc (length trace)" using ld tr by simp
  moreover have "hd (D # Ds) = D" by simp
  moreover have "last (D # Ds) = D'" using ne la by simp
  moreover have "length trace = length (x # xs)" using l tr by simp
  ultimately show ?case by blast
qed

lemma sampled_loop_feedback:
  "sampled_loop pf step best D prev xs = Inr (trace, D') \<Longrightarrow>
   \<forall>x\<in>set xs. \<not> snd x < pf \<Longrightarrow>
     (trace \<noteq> [] \<longrightarrow> fst (hd trace) = (case prev of None \<Rightarrow> fst (hd xs) | Some p \<Rightarrow> p)) \<and>
     (\<forall>t. Suc t < length trace \<longrightarrow> best (snd (trace ! t)) = Inr (fst (trace ! Suc t)))"
proof (induction xs arbitrary: D prev trace)
  case Nil
  then show ?case by simp
next
  case (Cons x xs)
  obtain truth draw where x: "x = (truth, draw)" by (cases x)
  from Cons.prems(2) x have nd: "\<not> draw < pf" and rest_d: "\<forall>x\<in>set xs. \<not> snd x < pf"
    by simp_all
  define tok where "tok = (case prev of None \<Rightarrow> truth | Some p \<Rightarrow> p)"
  from Cons.prems(1) x nd obtain logits D1 p trace' where
    b: "best logits = Inr p" and
    rest: "sampled_loop pf step best D1 (Some p) xs = Inr (trace', D')" and
    tr: "trace = (tok, logits) # trace'"
    by (auto simp add: bindR_eq_Inr tok_def Let_def split: option.splits)
  from Cons.IH [OF rest rest_d] have
    h: "trace' \<noteq> [] \<longrightarrow> fst (hd trace') = p" and
    f: "\<forall>t. Suc t < length trace' \<longrightarrow> best (snd (trace' ! t)) = Inr (fst (trace' ! Suc t))"
    by simp_all
  have "\<forall>t. Suc t < length trace \<longrightarrow> best (snd (trace ! t)) = Inr (fst (trace ! Suc t))"
  proof (intro allI impI)
    fix t assume t: "Suc t < length trace"
    show "best (snd (trace ! t)) = Inr (fst (trace ! Suc t))"
    proof (cases t)
      case 0
      from t tr have "trace' \<noteq> []" by auto
      with h have "fst (trace' ! 0) = p" by (simp add: hd_conv_nth)
      with 0 tr b show ?thesis by simp
    next
      case (Suc t')
      with t tr f show ?thesis by simp
    qed
  qed
  moreover have "fst (hd trace) = (case prev of None \<Rightarrow> fst (hd (x # xs)) | Some p \<Rightarrow> p)"
    using tr x by (simp add: tok_def split: option.splits)
  ultimately show ?case by blast
qed

lemma Decoder_sampled_forward_Inr:
  assumes "Decoder_sampled_forward draws D inputs hid cs = Inr (od, D')"
  shows "\<exists>trace out. Decoder_sampled_trace draws D inputs hid cs = Inr (trace, D') \<and>
           cat0 (map snd trace) = Inr out \<and> od = Tens out"
  using assms
  by (auto simp add: Decoder_sampled_forward_def bindR_eq_Inr split: list.splits)

lemma Decoder_sampled_trace_zero:
  assumes "Decoder_sampled_trace draws D inputs hid cs = Inr (trace, D')"
    and "decoder_pr_force D = 0" and "\<forall>t. 0 \<le> draws t"
  shows "length trace = hd (shape inputs)
       \<and> (\<exists>Ds. length Ds = Suc (length trace) \<and> hd Ds = Decoder_start D hid \<and> last Ds = D' \<and>
            (\<forall>t<length trace. Decoder_token_step cs (Ds ! t) (fst (trace ! t))
                                = Inr (snd (trace ! t), Ds ! Suc t)))
       \<and> (trace \<noteq> [] \<longrightarrow> fst (hd trace) = unsqueeze0 (select0 inputs 0))
       \<and> (\<forall>t. Suc t < length trace \<longrightarrow>
            highest_tokens (snd (trace ! t)) = Inr (fst (trace ! Suc t)))"
proof -
  from assms(1) obtain rows where u: "unbind0 inputs = Inr rows" and
    l: "sampled_loop (decoder_pr_force D) (Decoder_token_step cs) highest_tokens
          (Decoder_start D hid) None
          (zip (map unsqueeze0 rows) (map draws [0..<length rows])) = Inr (trace, D')"
    by (auto simp add: Decoder_sampled_trace_def bindR_eq_Inr)
  let ?xs = "zip (map unsqueeze0 rows) (map draws [0..<length rows])"
  from unbind0_Inr [OF u] have rows: "rows = map (select0 inputs) [0..<hd (shape inputs)]" .
  then have lr: "length rows = hd (shape inputs)" by simp
  have d: "\<forall>x\<in>set ?xs. \<not> snd x < decoder_pr_force D"
  proof
    fix x assume "x \<in> set ?xs"
    then have "(fst x, snd x) \<in> set ?xs" by simp
    then have "snd x \<in> set (map draws [0..<length rows])" by (rule set_zip_rightD)
    with assms(2,3) show "\<not> snd x < decoder_pr_force D" by (auto simp add: not_less)
  qed
  from sampled_loop_steps [OF l] have lt: "length trace = length ?xs" and
    2: "\<exists>Ds. length Ds = Suc (length trace) \<and> hd Ds = Decoder_start D hid \<and> last Ds = D' \<and>
            (\<forall>t<length trace. Decoder_token_step cs (Ds ! t) (fst (trace ! t))
                                = Inr (snd (trace ! t), Ds ! Suc t))"
    by blast+
  from lt lr have 1: "length trace = hd (shape inputs)" by simp
  from sampled_loop_feedback [OF l d] have
    3: "trace \<noteq> [] \<longrightarrow> fst (hd trace) = fst (hd ?xs)" and
    4: "\<forall>t. Suc t < length trace \<longrightarrow>
            highest_tokens (snd (trace ! t)) = Inr (fst (trace ! Suc t))"
    by simp_all
  have 5: "trace \<noteq> [] \<longrightarrow> fst (hd trace) = unsqueeze0 (select0 inputs 0)"
  proof
    assume ne: "trace \<noteq> []"
    then have "0 < length trace" by simp
    with 1 have pos: "0 < hd (shape inputs)" by simp
    then have "[0..<hd (shape inputs)] = 0 # [1..<hd (shape inputs)]"
      by (simp add: upt_conv_Cons)
    then have "rows = select0 inputs 0 # map (select0 inputs) [1..<hd (shape inputs)]"
      unfolding rows by simp
    then obtain r where r: "rows = select0 inputs 0 # r" by blast
    have "[0..<length rows] = 0 # [1..<length rows]"
      unfolding r by (simp add: upt_conv_Cons del: upt_Suc)
    then have "fst (hd ?xs) = unsqueeze0 (select0 inputs 0)"
      unfolding r by simp
    with 3 ne show "fst (hd trace) = unsqueeze0 (select0 inputs 0)" by simp
  qed
  from 1 2 5 4 show ?thesis by blast
qed

text \<open>
  C2. In training mode with \<open>pr_force = 0\<close>, \<open>decoding\<close> copies \<open>pr_force = 0\<close>
  into the decoder and calls it with one beam, whatever count the caller passes. With
  the decoder's path for one beam as the spec describes its loop with scheduled
  sampling, and draws from \<open>[0, 1)\<close>, a call of \<open>decoding\<close> that returns has run
  one step of the decoder per target step: the token of the first step is the first
  ground-truth token, and the token of every step after the first is the argmax of the
  logits of the step before, the model's own highest-probability prediction, and not
  the ground-truth token of that step. Each token is embedded and run
  through the layers from the decoder as the step before left it, and the logits of
  all steps are the decoder output that \<open>decoding\<close> returns.
\<close>

theorem zero_pr_force_feeds_back_predictions:
  assumes "training m" and "pr_force m = 0" and "\<forall>t. 0 \<le> draws t"
    and "\<forall>D i h c. decoder_call X D i h 1 c = Decoder_sampled_forward draws D i h c"
    and "decoding X m di num_beams st c = Inr ((od, pr), m')"
  shows "decoding_nb m num_beams = 1
     \<and> decoding_decoder m = (decoder m)\<lparr>decoder_pr_force := 0\<rparr>
     \<and> decoder_call X ((decoder m)\<lparr>decoder_pr_force := 0\<rparr>) di (Some st) 1 c
          = Inr (od, decoder m')
     \<and> (\<exists>trace Ds out.
          Decoder_sampled_trace draws ((decoder m)\<lparr>decoder_pr_force := 0\<rparr>) di (Some st) c
            = Inr (trace, decoder m')
        \<and> cat0 (map snd trace) = Inr out \<and> od = Tens out
        \<and> length trace = hd (shape di)
        \<and> length Ds = Suc (length trace)
        \<and> hd Ds = (decoder m)\<lparr>decoder_pr_force := 0, hidden := st\<rparr>
        \<and> last Ds = decoder m'
        \<and> (\<forall>t<length trace. Decoder_token_step c (Ds ! t) (fst (trace ! t))
                              = Inr (snd (trace ! t), Ds ! Suc t))
        \<and> fst (hd trace) = unsqueeze0 (select0 di 0)
        \<and> (\<forall>t. Suc t < length trace \<longrightarrow>
              highest_tokens (snd (trace ! t)) = Inr (fst (trace ! Suc t))))"
proof -
  from assms(1,2) have nb: "decoding_nb m num_beams = 1" by (simp add: decoding_nb_def)
  from assms(1,2) have dd: "decoding_decoder m = (decoder m)\<lparr>decoder_pr_force := 0\<rparr>"
    by (simp add: decoding_decoder_def)
  let ?D = "(decoder m)\<lparr>decoder_pr_force := 0\<rparr>"
  from decoding_Inr [OF assms(5)] nb dd obtain d where
    call: "decoder_call X ?D di (Some st) 1 c = Inr (od, d)" and
    m': "m' = m\<lparr>decoder := d\<rparr>" by auto
  then have dm: "decoder m' = d" by simp
  from call assms(4) have "Decoder_sampled_forward draws ?D di (Some st) c = Inr (od, d)"
    by simp
  from Decoder_sampled_forward_Inr [OF this] obtain trace out where
    tr: "Decoder_sampled_trace draws ?D di (Some st) c = Inr (trace, d)" and
    cat: "cat0 (map snd trace) = Inr out" and od: "od = Tens out" by blast
  have pf: "decoder_pr_force ?D = 0" by simp
  from Decoder_sampled_trace_zero [OF tr pf assms(3)] obtain Ds where
    1: "length trace = hd (shape di)" and
    2: "length Ds = Suc (length trace)" and
    3: "hd Ds = Decoder_start ?D (Some st)" and
    4: "last Ds = d" and
    5: "\<forall>t<length trace. Decoder_token_step c (Ds ! t) (fst (trace ! t))
                              = Inr (snd (trace ! t), Ds ! Suc t)" and
    6: "trace \<noteq> [] \<longrightarrow> fst (hd trace) = unsqueeze0 (select0 di 0)" and
    7: "\<forall>t. Suc t < length trace \<longrightarrow>
              highest_tokens (snd (trace ! t)) = Inr (fst (trace ! Suc t))"
    by blast
  from cat have "trace \<noteq> []" by (auto simp add: cat0_def)
  with 6 have 8: "fst (hd trace) = unsqueeze0 (select0 di 0)" by simp
  have 9: "hd Ds = (decoder m)\<lparr>decoder_pr_force := 0, hidden := st\<rparr>"
    using 3 by (simp add: Decoder_start_def)
  from nb dd call [folded dm] tr [folded dm] cat od 1 2 9 4 [folded dm] 5 8 7
  show ?thesis by blast
qed

theorem zero_pr_force_feeds_back_predictions_witness:
  "training ((sum_model None)\<lparr>pr_force := 0, decoder := wide_decoder\<rparr>)
   \<and> pr_force ((sum_model None)\<lparr>pr_force := 0, decoder := wide_decoder\<rparr>) = 0
   \<and> returned (decoding plain_collaborators
                 ((sum_model None)\<lparr>pr_force := 0, decoder := wide_decoder\<rparr>)
                 three_steps 0 [Tens (scalar3 0)] None)
       = Inr (Tens \<lparr>shape = [3, 1, 3], elems = [0, 5, 1, 0, 6, 1, 0, 7, 1]\<rparr>,
              Logits (Tens \<lparr>shape = [3, 1, 3], elems = [0, 5, 1, 0, 6, 1, 0, 7, 1]\<rparr>))
   \<and> (\<exists>trace :: (int tensor \<times> int tensor) list. map fst trace
                 = [\<lparr>shape = [1, 1], elems = [5]\<rparr>, \<lparr>shape = [1, 1], elems = [1]\<rparr>,
                    \<lparr>shape = [1, 1], elems = [1]\<rparr>]
        \<and> fst (hd trace) = unsqueeze0 (select0 three_steps 0)
        \<and> highest_tokens (snd (trace ! 0)) = Inr (fst (trace ! 1))
        \<and> highest_tokens (snd (trace ! 1)) = Inr (fst (trace ! 2)))"
proof -
  let ?m = "(sum_model None)\<lparr>pr_force := 0, decoder := wide_decoder\<rparr>"
  let ?d = "decoding plain_collaborators ?m three_steps 0 [Tens (scalar3 0)] None"
  have 1: "training ?m" by (simp add: sum_model_def)
  have 2: "pr_force ?m = 0" by simp
  have 3: "\<forall>t :: nat. (0 :: real) \<le> (\<lambda>t. 1 / 2) t" by simp
  have 4: "\<forall>D i h c. decoder_call plain_collaborators D i h 1 c
             = Decoder_sampled_forward (\<lambda>t. 1 / 2) D i h c"
    by (simp add: plain_collaborators_def Decoder_forward_def)
  have 5: "returned ?d
       = Inr (Tens \<lparr>shape = [3, 1, 3], elems = [0, 5, 1, 0, 6, 1, 0, 7, 1]\<rparr>,
              Logits (Tens \<lparr>shape = [3, 1, 3], elems = [0, 5, 1, 0, 6, 1, 0, 7, 1]\<rparr>))"
    by code_simp
  then obtain od pr m' where d: "?d = Inr ((od, pr), m')"
    by (cases ?d) (auto simp add: returned_def)
  have 6: "bindR (Decoder_sampled_trace (\<lambda>t. 1 / 2) (wide_decoder\<lparr>decoder_pr_force := 0\<rparr>)
                    three_steps (Some [Tens (scalar3 0)]) None)
             (\<lambda>(trace, D). Inr (map fst trace))
       = Inr [\<lparr>shape = [1, 1], elems = [5]\<rparr>, \<lparr>shape = [1, 1], elems = [1]\<rparr>,
              \<lparr>shape = [1, 1], elems = [1]\<rparr>]"
    by code_simp
  from zero_pr_force_feeds_back_predictions [OF 1 2 3 4 d] obtain trace where
    t: "Decoder_sampled_trace (\<lambda>t. 1 / 2) ((decoder ?m)\<lparr>decoder_pr_force := 0\<rparr>) three_steps
          (Some [Tens (scalar3 0)]) None = Inr (trace, decoder m')" and
    l: "length trace = hd (shape three_steps)" and
    h: "fst (hd trace) = unsqueeze0 (select0 three_steps 0)" and
    f: "\<forall>t. Suc t < length trace \<longrightarrow>
              highest_tokens (snd (trace ! t)) = Inr (fst (trace ! Suc t))"
    by blast
  from t 6 have toks: "map fst trace
       = [\<lparr>shape = [1, 1], elems = [5]\<rparr>, \<lparr>shape = [1, 1], elems = [1]\<rparr>,
          \<lparr>shape = [1, 1], elems = [1]\<rparr>]"
    by simp
  from l have "length trace = 3" by (simp add: three_steps_def)
  with f have "highest_tokens (snd (trace ! 0)) = Inr (fst (trace ! 1))"
    and "highest_tokens (snd (trace ! 1)) = Inr (fst (trace ! 2))"
    by (simp_all add: numeral_2_eq_2)
  with toks h have "\<exists>trace :: (int tensor \<times> int tensor) list. map fst trace
                 = [\<lparr>shape = [1, 1], elems = [5]\<rparr>, \<lparr>shape = [1, 1], elems = [1]\<rparr>,
                    \<lparr>shape = [1, 1], elems = [1]\<rparr>]
        \<and> fst (hd trace) = unsqueeze0 (select0 three_steps 0)
        \<and> highest_tokens (snd (trace ! 0)) = Inr (fst (trace ! 1))
        \<and> highest_tokens (snd (trace ! 1)) = Inr (fst (trace ! 2))"
    by (intro exI [of _ trace] conjI)
  with 1 2 5 show ?thesis by (intro conjI)
qed

end
